theory Spec2Isabelle
  imports Complex_Main "HOL-Library.Option_ord"
begin

section \<open>Data model\<close>

text \<open>
  The module \<^verbatim>\<open>judge/utils/problems.py\<close> reads two tables through the ORM and keeps
  results in the process-wide cache. The model classes themselves
  (\<^verbatim>\<open>judge.models.Problem\<close>, \<^verbatim>\<open>judge.models.Submission\<close>) are not
  part of the sources at hand; the records below hold exactly the columns the queries of
  \<^verbatim>\<open>problems.py\<close> name. Point values and the acceptance rate are floating point
  columns, idealised here as real numbers; identifiers and counts are Python integers;
  result codes are strings; timestamps and durations are counted in microseconds.
\<close>

record problem =
  p_id :: int
  p_code :: string
  p_name :: string
  p_points :: real
  p_ac_rate :: real
  p_is_public :: bool

record submission =
  s_id :: int
  s_user :: int
  s_problem :: int
  s_result :: string
  s_points :: real
  s_date :: int

record profile =
  pr_id :: int
  pr_user :: int

record database =
  problems :: "problem list"
  submissions :: "submission list"

text \<open>
  The value stored under \<^verbatim>\<open>user_attempted:<id>\<close> for one problem
  (the inner dict of \<^verbatim>\<open>user_attempted_ids\<close>).
\<close>

record attempted =
  achieved_points :: real
  max_points :: real
  last_submission :: int
  code :: string
  name :: string

text \<open>
  One row of the query set \<^verbatim>\<open>hot_problems\<close> builds: the problem with its four
  annotations. \<^verbatim>\<open>ordering\<close> is \<open>None\<close> where the database yields SQL NULL.
\<close>

record hot_row =
  hr_problem :: problem
  unique_user_count :: int
  submission_volume :: int
  ac_volume :: int
  ordering :: "real option"

text \<open>
  Python is dynamically typed: the cache stores whatever a function put there, and a
  function that finds an entry returns it as it is. \<open>cached\<close> is the type of those
  values.
\<close>

datatype cached =
    IdSet "int set"
  | AttemptedDict "int \<rightharpoonup> attempted"
  | HotList "hot_row list"
  | ProblemList "problem list"

datatype event = DbQuery string | ModelQuery string

text \<open>
  The state the cached functions act on: the cache (each entry with the timeout it was
  stored with; expiry is the backend's business and happens between calls) and the trace
  of the queries these functions have issued so far, against the database and against the
  similarity model. \<^verbatim>\<open>get_result_data\<close> uses no cache and is modelled without the
  state.
\<close>

record world =
  cache :: "string \<rightharpoonup> (cached \<times> nat)"
  trace :: "event list"

datatype error =
    ValueError string
  | TypeError
  | DoesNotExist int
  | MultipleObjectsReturned int
  | NegativeIndexing

definition cache_get :: "string \<Rightarrow> world \<Rightarrow> cached option" where
  "cache_get key w = map_option fst (cache w key)"

definition cache_set :: "string \<Rightarrow> cached \<Rightarrow> nat \<Rightarrow> world \<Rightarrow> world" where
  "cache_set key v timeout w = w\<lparr>cache := (cache w)(key \<mapsto> (v, timeout))\<rparr>"

definition issue :: "event \<Rightarrow> world \<Rightarrow> world" where
  "issue ev w = w\<lparr>trace := trace w @ [ev]\<rparr>"

section \<open>String formatting of cache keys\<close>

function str_nat :: "nat \<Rightarrow> string" where
  "str_nat n = (if n < 10 then [''0123456789'' ! n]
                else str_nat (n div 10) @ [''0123456789'' ! (n mod 10)])"
  by pat_completeness auto
termination
  by (relation "measure (\<lambda>n. n)") auto

declare str_nat.simps [simp del]

text \<open>The conversion \<^verbatim>\<open>"%d" % i\<close> of a Python integer.\<close>

definition str_int :: "int \<Rightarrow> string" where
  "str_int i = (if i < 0 then ''-'' @ str_nat (nat (- i)) else str_nat (nat i))"

section \<open>Query building blocks\<close>

text \<open>
  The inner join of the submission table with the problem table along the foreign key
  \<^verbatim>\<open>submission.problem_id\<close>, which every lookup \<^verbatim>\<open>problem__...\<close> goes
  through.
\<close>

definition join_problem :: "database \<Rightarrow> (submission \<times> problem) list" where
  "join_problem d =
     [(s, p). s \<leftarrow> submissions d, p \<leftarrow> problems d, s_problem s = p_id p]"

text \<open>\<^verbatim>\<open>GROUP BY\<close>: one group per distinct key, holding the rows with that key.\<close>

definition group_by :: "('r \<Rightarrow> 'k) \<Rightarrow> 'r list \<Rightarrow> ('k \<times> 'r list) list" where
  "group_by key rows =
     map (\<lambda>k. (k, filter (\<lambda>r. key r = k) rows)) (remdups (map key rows))"

text \<open>The aggregate \<^verbatim>\<open>Max\<close>: NULL on no rows.\<close>

fun sql_max :: "'a::linorder list \<Rightarrow> 'a option" where
  "sql_max [] = None"
| "sql_max (x # xs) = Some (fold max xs x)"

text \<open>A dict built from key/value pairs, a later pair replacing an earlier one.\<close>

definition dict_of :: "('k \<times> 'v) list \<Rightarrow> ('k \<rightharpoonup> 'v)" where
  "dict_of kvs = fold (\<lambda>(k, v) m. m(k \<mapsto> v)) kvs Map.empty"

section \<open>Cached ID-set resolvers\<close>

text \<open>
  The query of \<^verbatim>\<open>user_completed_ids\<close>:
  \<^verbatim>\<open>Submission.objects.filter(user=profile, result="AC", points=F("problem__points"))
    .values_list("problem_id", flat=True).distinct()\<close>, made a set.
\<close>

definition user_completed_query :: "database \<Rightarrow> profile \<Rightarrow> int set" where
  "user_completed_query d pr =
     set (remdups (map (\<lambda>(s, p). s_problem s)
       (filter (\<lambda>(s, p). s_user s = pr_id pr \<and> s_result s = ''AC'' \<and> s_points s = p_points p)
          (join_problem d))))"

definition user_completed_ids :: "database \<Rightarrow> profile \<Rightarrow> world \<Rightarrow> cached \<times> world" where
  "user_completed_ids d pr w =
     (let key = ''user_complete:'' @ str_int (pr_id pr) in
      case cache_get key w of
        None \<Rightarrow>
          (let result = IdSet (user_completed_query d pr);
               w1 = issue (DbQuery ''Submission'') w
           in (result, cache_set key result 86400 w1))
      | Some result \<Rightarrow> (result, w))"

text \<open>
  The query of \<^verbatim>\<open>user_attempted_ids\<close>: the profile's submissions grouped by the
  four problem columns of \<^verbatim>\<open>values_list\<close>, annotated with the best points and the
  latest submission id, and kept where the best points are below the problem's points
  (a NULL aggregate compares as unknown and drops the row).
\<close>

definition user_attempted_rows ::
  "database \<Rightarrow> profile \<Rightarrow> (int \<times> real \<times> string \<times> string \<times> real \<times> int) list" where
  "user_attempted_rows d pr =
     concat (map (\<lambda>((i, mp, c, n), rows).
         case (sql_max (map (\<lambda>(s, p). s_points s) rows),
               sql_max (map (\<lambda>(s, p). s_id s) rows)) of
           (Some points, Some latest) \<Rightarrow>
             if points < mp then [(i, mp, c, n, points, latest)] else []
         | _ \<Rightarrow> [])
       (group_by (\<lambda>(s, p). (p_id p, p_points p, p_code p, p_name p))
          (filter (\<lambda>(s, p). s_user s = pr_id pr) (join_problem d))))"

definition user_attempted_query :: "database \<Rightarrow> profile \<Rightarrow> (int \<rightharpoonup> attempted)" where
  "user_attempted_query d pr =
     dict_of (map (\<lambda>(i, mp, c, n, points, latest).
         (i, \<lparr>achieved_points = points, max_points = mp, last_submission = latest,
              code = c, name = n\<rparr>))
       (user_attempted_rows d pr))"

definition user_attempted_ids :: "database \<Rightarrow> profile \<Rightarrow> world \<Rightarrow> cached \<times> world" where
  "user_attempted_ids d pr w =
     (let key = ''user_attempted:'' @ str_int (pr_id pr) in
      case cache_get key w of
        None \<Rightarrow>
          (let result = AttemptedDict (user_attempted_query d pr);
               w1 = issue (DbQuery ''Submission'') w
           in (result, cache_set key result 86400 w1))
      | Some result \<Rightarrow> (result, w))"

section \<open>Result histogram builder\<close>

record category =
  cat_code :: string
  cat_name :: string
  cat_count :: int

record result_data =
  categories :: "category list"
  total :: int

text \<open>
  \<^verbatim>\<open>defaultdict(int, raw)\<close> as an association list in insertion order: a pair whose
  key is already there replaces the value, and reading a missing key yields \<open>0\<close> and
  adds the key with that value, as \<^verbatim>\<open>__missing__\<close> does.
\<close>

fun dict_update :: "'k \<Rightarrow> 'v \<Rightarrow> ('k \<times> 'v) list \<Rightarrow> ('k \<times> 'v) list" where
  "dict_update k v [] = [(k, v)]"
| "dict_update k v ((k', v') # al) =
     (if k = k' then (k, v) # al else (k', v') # dict_update k v al)"

definition defaultdict_int :: "(string \<times> int) list \<Rightarrow> (string \<times> int) list" where
  "defaultdict_int raw = fold (\<lambda>(k, v). dict_update k v) raw []"

definition getitem :: "(string \<times> int) list \<Rightarrow> string \<Rightarrow> int \<times> (string \<times> int) list" where
  "getitem al k = (case map_of al k of Some v \<Rightarrow> (v, al) | None \<Rightarrow> (0, al @ [(k, 0)]))"

text \<open>
  \<^verbatim>\<open>_get_result_data\<close> (an Isabelle name cannot start with an underscore). The dict
  display evaluates its entries in order: the ten lookups first, each possibly adding a
  key, then \<^verbatim>\<open>sum(results.values())\<close> over the dict as it is by then. The names are
  the message ids handed to \<^verbatim>\<open>gettext_noop\<close>.
\<close>

definition u_get_result_data :: "(string \<times> int) list \<Rightarrow> result_data" where
  "u_get_result_data results =
     (let (ac, r1) = getitem results ''AC'';
          (wa, r2) = getitem r1 ''WA'';
          (ce, r3) = getitem r2 ''CE'';
          (tle, r4) = getitem r3 ''TLE'';
          (mle, r5) = getitem r4 ''MLE'';
          (ole, r6) = getitem r5 ''OLE'';
          (ir, r7) = getitem r6 ''IR'';
          (rte, r8) = getitem r7 ''RTE'';
          (ab, r9) = getitem r8 ''AB'';
          (ie, r10) = getitem r9 ''IE''
      in \<lparr>categories =
            [\<lparr>cat_code = ''AC'', cat_name = ''Accepted'', cat_count = ac\<rparr>,
             \<lparr>cat_code = ''WA'', cat_name = ''Wrong'', cat_count = wa\<rparr>,
             \<lparr>cat_code = ''CE'', cat_name = ''Compile Error'', cat_count = ce\<rparr>,
             \<lparr>cat_code = ''TLE'', cat_name = ''Timeout'', cat_count = tle\<rparr>,
             \<lparr>cat_code = ''ERR'', cat_name = ''Error'',
              cat_count = mle + ole + ir + rte + ab + ie\<rparr>],
          total = sum_list (map snd r10)\<rparr>)"

text \<open>
  \<^verbatim>\<open>submissions.values("result").annotate(count=Count("result")).values_list("result", "count")\<close>:
  one pair per result code that occurs, with the number of its rows.
\<close>

definition result_counts :: "submission list \<Rightarrow> (string \<times> int) list" where
  "result_counts subs = map (\<lambda>(r, rows). (r, int (length rows))) (group_by s_result subs)"

text \<open>
  A keyword filter is kept with its name and with the row predicate the ORM compiles the
  lookup to; \<^verbatim>\<open>Submission.objects.filter(**kwargs)\<close> keeps the rows that satisfy all
  of them.
\<close>

type_synonym kwarg = "string \<times> (submission \<Rightarrow> bool)"

definition objects_filter :: "database \<Rightarrow> kwarg list \<Rightarrow> submission list" where
  "objects_filter d kwargs = filter (\<lambda>s. list_all (\<lambda>(n, holds). holds s) kwargs) (submissions d)"

text \<open>
  \<^verbatim>\<open>get_result_data(*args, **kwargs)\<close>. \<open>args\<close> are the positional arguments (query
  sets of submissions, given by their rows), \<open>kwargs\<close> the keyword filters. Python binds
  \<^verbatim>\<open>kwargs\<close> to a dict, never to \<^verbatim>\<open>None\<close>; the test
  \<^verbatim>\<open>kwargs is not None\<close> is kept as the case distinction on \<open>Some kwargs\<close>.
\<close>

definition get_result_data ::
  "database \<Rightarrow> submission list list \<Rightarrow> kwarg list \<Rightarrow> error + result_data" where
  "get_result_data d args kwargs =
     (let chosen =
        (case args of
           a0 # _ \<Rightarrow>
             if kwargs \<noteq> [] then Inl (ValueError ''Can't pass both queryset and keyword filters'')
             else Inr a0
         | [] \<Rightarrow>
             Inr (case Some kwargs of
                    Some kw \<Rightarrow> objects_filter d kw
                  | None \<Rightarrow> submissions d))
      in case chosen of
           Inl err \<Rightarrow> Inl err
         | Inr subs \<Rightarrow> Inr (u_get_result_data (defaultdict_int (result_counts subs))))"

section \<open>Hot-problem ranker\<close>

text \<open>
  Modelled from the spec: \<^verbatim>\<open>Problem.get_public_problems()\<close> is a class method of the
  absent model class; the spec has it return the publicly visible problems, told by the
  problem's visibility flag.
\<close>

definition get_public_problems :: "database \<Rightarrow> problem list" where
  "get_public_problems d = filter p_is_public (problems d)"

text \<open>
  \<^verbatim>\<open>"%d" % duration.total_seconds()\<close>: the duration in seconds, truncated towards
  zero. Python forms the seconds as a double first; the model truncates the exact count
  of microseconds, which gives the same string for durations below \<open>2 ^ 33\<close> seconds
  (some 270 years), where rounding to a double cannot reach the next whole second. The
  string only names the cache entry.
\<close>

definition total_seconds :: "int \<Rightarrow> int" where
  "total_seconds duration =
     (if 0 \<le> duration then duration div 1000000 else - ((- duration) div 1000000))"

text \<open>
  \<^verbatim>\<open>Case(When(submission__result=c, then=v), ...)\<close>: the value of the first branch
  whose code matches, NULL when none does; and \<^verbatim>\<open>Count\<close> of an expression, which
  counts the rows where the expression is not NULL.
\<close>

fun case_when :: "(string \<times> real) list \<Rightarrow> string \<Rightarrow> real option" where
  "case_when [] r = None"
| "case_when ((c, v) # whens) r = (if r = c then Some v else case_when whens r)"

definition count_expr :: "'a option list \<Rightarrow> int" where
  "count_expr vs = int (length (filter (\<lambda>v. v \<noteq> None) vs))"

definition count_distinct :: "'a list \<Rightarrow> int" where
  "count_distinct vs = int (length (remdups vs))"

text \<open>
  Arithmetic inside the database: a division by zero yields NULL (it does on MySQL and
  SQLite; other backends abort the query), and NULL makes every expression it enters NULL.
\<close>

definition sql_div :: "real \<Rightarrow> real \<Rightarrow> real option" where
  "sql_div a b = (if b = 0 then None else Some (a / b))"

definition math_e :: real where
  "math_e = exp 1"

text \<open>
  \<^verbatim>\<open>order_by("-key")\<close>: rows in non-increasing key order, NULL keys last (\<open>None\<close> is
  the least element of the order on \<open>option\<close>). The database leaves the order among equal
  keys open; the model keeps the order the rows came in.
\<close>

primrec insert_desc :: "('r \<Rightarrow> 'k::linorder) \<Rightarrow> 'r \<Rightarrow> 'r list \<Rightarrow> 'r list" where
  "insert_desc key x [] = [x]"
| "insert_desc key x (y # ys) =
     (if key y \<le> key x then x # y # ys else y # insert_desc key x ys)"

definition order_by_desc :: "('r \<Rightarrow> 'k::linorder) \<Rightarrow> 'r list \<Rightarrow> 'r list" where
  "order_by_desc key rows = foldr (insert_desc key) rows []"

text \<open>
  The candidates: public problems joined with their submissions inside the window
  (\<^verbatim>\<open>submission__date__gt=timezone.now() - duration\<close>), grouped by problem. The
  annotations that follow reuse this join, so they aggregate over these rows only.
\<close>

definition window_rows :: "database \<Rightarrow> int \<Rightarrow> int \<Rightarrow> (problem \<times> submission) list" where
  "window_rows d now duration =
     [(p, s). p \<leftarrow> get_public_problems d, s \<leftarrow> submissions d,
        s_problem s = p_id p, now - duration < s_date s]"

definition hot_candidates :: "database \<Rightarrow> int \<Rightarrow> int \<Rightarrow> (problem \<times> submission list) list" where
  "hot_candidates d now duration =
     map (\<lambda>(p, rows). (p, map snd rows)) (group_by fst (window_rows d now duration))"

definition hot_ordering :: "real \<Rightarrow> problem \<Rightarrow> int \<Rightarrow> int \<Rightarrow> int \<Rightarrow> real option" where
  "hot_ordering mx p users volume ac =
     (case (sql_div (0.4 * real_of_int ac) (real_of_int volume),
            sql_div (real_of_int users) mx) of
        (Some q, Some r) \<Rightarrow>
          Some (0.02 * p_points p * (q + 0.6 * p_ac_rate p) + 100 * math_e powr r)
      | _ \<Rightarrow> None)"

definition annotate_row :: "real \<Rightarrow> problem \<times> submission list \<Rightarrow> hot_row" where
  "annotate_row mx = (\<lambda>(p, subs).
     (let users = count_distinct (map s_user subs);
          volume = count_expr (map (\<lambda>s. case_when
             [(''AC'', 1), (''WA'', 1), (''IR'', 1), (''RTE'', 1), (''TLE'', 1), (''OLE'', 1)]
             (s_result s)) subs);
          ac = count_expr (map (\<lambda>s. case_when [(''AC'', 1)] (s_result s)) subs)
      in \<lparr>hr_problem = p, unique_user_count = users, submission_volume = volume,
          ac_volume = ac, ordering = hot_ordering mx p users volume ac\<rparr>))"

text \<open>
  \<^verbatim>\<open>hot_problems(duration, limit)\<close>, with the clock reading \<open>now\<close> of
  \<^verbatim>\<open>timezone.now()\<close> as a further argument. The query set is evaluated twice: by
  \<^verbatim>\<open>if not qs0\<close> and when \<^verbatim>\<open>cache.set\<close> stores it. A negative \<open>limit\<close> makes
  the slice \<^verbatim>\<open>[:limit]\<close> of the query set raise (the ORM supports no negative
  indexing). The result omits the deferred column \<^verbatim>\<open>description\<close>, which the
  record \<open>problem\<close> does not hold.
\<close>

definition hot_problems ::
  "database \<Rightarrow> int \<Rightarrow> int \<Rightarrow> int \<Rightarrow> world \<Rightarrow> (error + cached) \<times> world" where
  "hot_problems d now duration limit w =
     (let cache_key = ''hot_problems:'' @ str_int (total_seconds duration) @ '':'' @ str_int limit
      in case cache_get cache_key w of
           Some qs \<Rightarrow> (Inr qs, w)
         | None \<Rightarrow>
            (let groups = hot_candidates d now duration;
                 qs0 = order_by_desc (\<lambda>k. k)
                         (map (\<lambda>(p, subs). count_distinct (map s_user subs)) groups);
                 w1 = issue (DbQuery ''Problem'') w
             in case qs0 of
                  [] \<Rightarrow> (Inr (HotList []), w1)
                | k0 # _ \<Rightarrow>
                   (let mx = real_of_int k0;
                        kept = filter (\<lambda>(p, subs).
                                 max (mx / 3) 1 < real_of_int (count_distinct (map s_user subs)))
                               groups;
                        ranked = order_by_desc ordering (map (annotate_row mx) kept)
                    in if limit < 0 then (Inl NegativeIndexing, w1)
                       else
                         (let qs = HotList (take (nat limit) ranked);
                              w2 = issue (DbQuery ''Problem'') w1
                          in (Inr qs, cache_set cache_key qs 900 w2)))))"

section \<open>Related-problem recommender\<close>

datatype metric = DOT | COSINE

text \<open>
  What \<^verbatim>\<open>get_related_problems\<close> takes from outside this module: the setting
  \<^verbatim>\<open>settings.ML_OUTPUT_PATH\<close>, the query \<^verbatim>\<open>Problem.get_visible_problems(user)\<close>,
  the similarity model's \<^verbatim>\<open>problem_neighbors\<close>, the order in which Python lists a
  set, \<^verbatim>\<open>random.Random(seed).shuffle\<close>, and the date string
  \<^verbatim>\<open>datetime.now().strftime("%d%m%Y")\<close>. Building the model object
  \<^verbatim>\<open>CollabFilter("collab_filter")\<close> is part of querying it.
\<close>

record env =
  ML_OUTPUT_PATH :: "string option"
  get_visible_problems :: "database \<Rightarrow> int \<Rightarrow> problem list"
  problem_neighbors :: "problem \<Rightarrow> int list \<Rightarrow> metric \<Rightarrow> int \<Rightarrow> (real \<times> int) list"
  list_of_set :: "int list \<Rightarrow> int list"
  shuffle :: "string \<Rightarrow> int list \<Rightarrow> int list"
  today :: string

definition falsy :: "string option \<Rightarrow> bool" where
  "falsy v = (case v of None \<Rightarrow> True | Some s \<Rightarrow> s = [])"

text \<open>The list slice \<^verbatim>\<open>xs[:n]\<close>; a negative \<open>n\<close> counts from the end.\<close>

definition py_slice_to :: "int \<Rightarrow> 'a list \<Rightarrow> 'a list" where
  "py_slice_to n xs = (if 0 \<le> n then take (nat n) xs else take (length xs - nat (- n)) xs)"

definition objects_get :: "database \<Rightarrow> int \<Rightarrow> error + problem" where
  "objects_get d i =
     (case filter (\<lambda>p. p_id p = i) (problems d) of
        [] \<Rightarrow> Inl (DoesNotExist i)
      | [p] \<Rightarrow> Inr p
      | _ \<Rightarrow> Inl (MultipleObjectsReturned i))"

text \<open>
  The comprehension \<^verbatim>\<open>[Problem.objects.get(id=i) for i in results]\<close>: one query per
  id, stopping at the first that raises.
\<close>

fun get_each :: "database \<Rightarrow> int list \<Rightarrow> world \<Rightarrow> (error + problem list) \<times> world" where
  "get_each d [] w = (Inr [], w)"
| "get_each d (i # ids) w =
     (let w1 = issue (DbQuery ''Problem'') w in
      case objects_get d i of
        Inl err \<Rightarrow> (Inl err, w1)
      | Inr p \<Rightarrow>
          (case get_each d ids w1 of
             (Inl err, w2) \<Rightarrow> (Inl err, w2)
           | (Inr ps, w2) \<Rightarrow> (Inr (p # ps), w2)))"

text \<open>
  \<^verbatim>\<open>get_related_problems(profile, problem, limit=8)\<close>. A profile object is truthy,
  so the falsy profile is \<^verbatim>\<open>None\<close>; the setting is falsy when it is
  \<^verbatim>\<open>None\<close> or the empty string. The result \<open>None\<close> is Python's \<^verbatim>\<open>None\<close>. The
  set of completed ids comes from \<open>user_completed_ids\<close>, cache included; a cached value
  that is no set of ids cannot be used in \<^verbatim>\<open>id__in\<close>.
\<close>

definition get_related_problems ::
  "env \<Rightarrow> database \<Rightarrow> profile option \<Rightarrow> problem \<Rightarrow> int \<Rightarrow> world
     \<Rightarrow> (error + cached option) \<times> world" where
  "get_related_problems e d profile target limit w =
     (case profile of
        None \<Rightarrow> (Inr None, w)
      | Some pr \<Rightarrow>
         if falsy (ML_OUTPUT_PATH e) then (Inr None, w)
         else
          (let cache_key =
                 ''related_problems:'' @ str_int (pr_id pr) @ '':'' @ str_int (p_id target)
           in case cache_get cache_key w of
                Some qs \<Rightarrow> (Inr (Some qs), w)
              | None \<Rightarrow>
                 (case user_completed_ids d pr w of
                    (IdSet completed, w1) \<Rightarrow>
                      (let problemset =
                             filter (\<lambda>i. i \<noteq> p_id target)
                               (filter (\<lambda>i. i \<notin> completed)
                                  (map p_id (get_visible_problems e d (pr_user pr))));
                           w2 = issue (ModelQuery ''DOT'') w1;
                           w3 = issue (ModelQuery ''COSINE'') w2;
                           results = problem_neighbors e target problemset DOT limit
                                     @ problem_neighbors e target problemset COSINE limit;
                           results = list_of_set e (map snd results);
                           results = shuffle e (today e) results;
                           results = py_slice_to limit results
                       in case get_each d results w3 of
                            (Inl err, w4) \<Rightarrow> (Inl err, w4)
                          | (Inr ps, w4) \<Rightarrow>
                              (Inr (Some (ProblemList ps)),
                               cache_set cache_key (ProblemList ps) 21600 w4))
                  | (other, w1) \<Rightarrow> (Inl TypeError, w1))))"

section \<open>Vocabulary of the properties\<close>

text \<open>
  The ten verdict codes of the data model; they are the ten keys \<open>u_get_result_data\<close>
  reads.
\<close>

definition verdict_codes :: "string list" where
  "verdict_codes =
     [''AC'', ''WA'', ''CE'', ''TLE'', ''MLE'', ''OLE'', ''IR'', ''RTE'', ''AB'', ''IE'']"

text \<open>The number of submissions of a collection with a given result code.\<close>

definition result_count :: "submission list \<Rightarrow> string \<Rightarrow> int" where
  "result_count subs r = int (length (filter (\<lambda>s. s_result s = r) subs))"

text \<open>Reading a \<^verbatim>\<open>defaultdict(int)\<close> without changing it.\<close>

definition lookup0 :: "(string \<times> int) list \<Rightarrow> string \<Rightarrow> int" where
  "lookup0 al k = (case map_of al k of Some v \<Rightarrow> v | None \<Rightarrow> 0)"

text \<open>
  The largest number of distinct submitters over the candidates of the window: the value
  \<^verbatim>\<open>mx\<close> of \<open>hot_problems\<close> when there is a candidate.
\<close>

definition max_user_count :: "database \<Rightarrow> int \<Rightarrow> int \<Rightarrow> int" where
  "max_user_count d now duration =
     Max (set (map (\<lambda>(p, subs). count_distinct (map s_user subs)) (hot_candidates d now duration)))"

text \<open>The submissions to a problem inside the window.\<close>

definition window_submissions :: "database \<Rightarrow> int \<Rightarrow> int \<Rightarrow> problem \<Rightarrow> submission list" where
  "window_submissions d now duration p =
     filter (\<lambda>s. s_problem s = p_id p \<and> now - duration < s_date s) (submissions d)"

text \<open>
  The contracts of the collaborators of \<open>get_related_problems\<close>: the similarity model
  returns neighbours among the candidates it was given, listing a set yields its elements
  once each, and shuffling permutes.
\<close>

definition env_ok :: "env \<Rightarrow> bool" where
  "env_ok e \<longleftrightarrow>
     (\<forall>q cands m l. snd ` set (problem_neighbors e q cands m l) \<subseteq> set cands) \<and>
     (\<forall>xs. set (list_of_set e xs) = set xs \<and> distinct (list_of_set e xs)) \<and>
     (\<forall>seed xs. set (shuffle e seed xs) = set xs \<and> length (shuffle e seed xs) = length xs)"

text \<open>
  The ids \<open>get_related_problems\<close> looks up on a cache miss, given the set of completed
  ids: the candidates, the two neighbour queries, the deduplication, the shuffle and the
  slice.
\<close>

definition related_ids :: "env \<Rightarrow> database \<Rightarrow> profile \<Rightarrow> problem \<Rightarrow> int \<Rightarrow> int set \<Rightarrow> int list" where
  "related_ids e d pr target limit completed =
     (let problemset = filter (\<lambda>i. i \<noteq> p_id target)
                         (filter (\<lambda>i. i \<notin> completed)
                            (map p_id (get_visible_problems e d (pr_user pr))))
      in py_slice_to limit (shuffle e (today e) (list_of_set e (map snd
           (problem_neighbors e target problemset DOT limit
            @ problem_neighbors e target problemset COSINE limit)))))"

text \<open>The cache backend dropping an entry whose timeout has passed.\<close>

definition expire :: "string \<Rightarrow> world \<Rightarrow> world" where
  "expire key w = w\<lparr>cache := (cache w)(key := None)\<rparr>"

section \<open>Example data\<close>

definition empty_world :: world where
  "empty_world = \<lparr>cache = Map.empty, trace = []\<rparr>"

definition mk_problem :: "int \<Rightarrow> real \<Rightarrow> problem" where
  "mk_problem i pts =
     \<lparr>p_id = i, p_code = ''p'' @ str_int i, p_name = ''Problem'', p_points = pts,
      p_ac_rate = 0.5, p_is_public = True\<rparr>"

definition mk_submission ::
  "int \<Rightarrow> int \<Rightarrow> int \<Rightarrow> string \<Rightarrow> real \<Rightarrow> int \<Rightarrow> submission" where
  "mk_submission i u p r pts t =
     \<lparr>s_id = i, s_user = u, s_problem = p, s_result = r, s_points = pts, s_date = t\<rparr>"

definition alice :: profile where
  "alice = \<lparr>pr_id = 7, pr_user = 70\<rparr>"

text \<open>A wrong answer that still earned every point of the problem.\<close>

definition db_wrong_full :: database where
  "db_wrong_full =
     \<lparr>problems = [mk_problem 1 100],
      submissions = [mk_submission 1 7 1 ''WA'' 100 0]\<rparr>"

text \<open>Problem 1 solved, problem 2 attempted for 40 of 100 points.\<close>

definition db_solved :: database where
  "db_solved =
     \<lparr>problems = [mk_problem 1 100, mk_problem 2 100],
      submissions = [mk_submission 1 7 1 ''AC'' 100 0, mk_submission 2 7 2 ''WA'' 40 0]\<rparr>"

text \<open>Problem 2 attempted, and the same table after a later full solution.\<close>

definition db_partial :: database where
  "db_partial =
     \<lparr>problems = [mk_problem 2 100],
      submissions = [mk_submission 2 7 2 ''WA'' 40 0]\<rparr>"

definition db_partial_then_solved :: database where
  "db_partial_then_solved =
     \<lparr>problems = [mk_problem 2 100],
      submissions = [mk_submission 2 7 2 ''WA'' 40 0, mk_submission 3 7 2 ''AC'' 100 10]\<rparr>"

definition db_histogram :: database where
  "db_histogram =
     \<lparr>problems = [mk_problem 1 100],
      submissions = [mk_submission 1 7 1 ''AC'' 100 0, mk_submission 2 7 1 ''WA'' 0 0,
                     mk_submission 3 8 1 ''MLE'' 0 0, mk_submission 4 8 1 ''IR'' 10 0]\<rparr>"

text \<open>One hour, in microseconds; the clock of the examples reads \<open>10000000000\<close>.\<close>

definition hour :: int where
  "hour = 3600000000"

text \<open>
  Three public problems with three, two and one submitter inside the last hour, and a
  private one with four.
\<close>

definition db_hot :: database where
  "db_hot =
     \<lparr>problems = [mk_problem 1 100, mk_problem 2 100, mk_problem 3 100,
                  (mk_problem 4 100)\<lparr>p_is_public := False\<rparr>],
      submissions =
        [mk_submission 1 7 1 ''AC'' 100 9000000000, mk_submission 2 8 1 ''WA'' 0 9000000001,
         mk_submission 3 9 1 ''CE'' 0 9000000002, mk_submission 4 7 2 ''AC'' 100 9000000003,
         mk_submission 5 8 2 ''TLE'' 0 9000000004, mk_submission 6 7 3 ''AC'' 100 9000000005,
         mk_submission 7 7 1 ''WA'' 0 1000,
         mk_submission 8 7 4 ''AC'' 100 9000000006, mk_submission 9 8 4 ''AC'' 100 9000000007,
         mk_submission 10 9 4 ''AC'' 100 9000000008, mk_submission 11 6 4 ''AC'' 100 9000000009]\<rparr>"

text \<open>Two public problems with the same points, rate and submissions.\<close>

definition db_tie :: database where
  "db_tie =
     \<lparr>problems = [mk_problem 1 100, mk_problem 2 100],
      submissions =
        [mk_submission 1 7 1 ''AC'' 100 9000000000, mk_submission 2 8 1 ''AC'' 100 9000000001,
         mk_submission 3 7 2 ''AC'' 100 9000000002, mk_submission 4 8 2 ''AC'' 100 9000000003]\<rparr>"

text \<open>A public problem whose two submitters got compile errors only.\<close>

definition db_compile_errors :: database where
  "db_compile_errors =
     \<lparr>problems = [mk_problem 1 100],
      submissions =
        [mk_submission 1 7 1 ''CE'' 0 9000000000, mk_submission 2 8 1 ''CE'' 0 9000000001]\<rparr>"

text \<open>
  A public problem whose only submission is older than an hour, and a private problem
  with a fresh one.
\<close>

definition db_quiet :: database where
  "db_quiet =
     \<lparr>problems = [mk_problem 1 100, (mk_problem 4 100)\<lparr>p_is_public := False\<rparr>],
      submissions =
        [mk_submission 1 7 1 ''AC'' 100 1000, mk_submission 2 8 4 ''AC'' 100 9000000001]\<rparr>"

text \<open>
  A similarity model that ranks the candidates in their order for the dot product and
  in reverse order for the cosine, with the feature switched on and off.
\<close>

definition env_on :: env where
  "env_on =
     \<lparr>ML_OUTPUT_PATH = Some ''/var/ml'',
      get_visible_problems = (\<lambda>d u. problems d),
      problem_neighbors = (\<lambda>q cands m l.
         case m of DOT \<Rightarrow> map (\<lambda>i. (1, i)) (py_slice_to l cands)
                 | COSINE \<Rightarrow> map (\<lambda>i. (1 / 2, i)) (py_slice_to l (rev cands))),
      list_of_set = remdups,
      shuffle = (\<lambda>seed xs. rev xs),
      today = ''04112026''\<rparr>"

definition env_off :: env where
  "env_off = env_on\<lparr>ML_OUTPUT_PATH := None\<rparr>"

text \<open>Three problems, before and after alice solves problem 2.\<close>

definition db_related :: database where
  "db_related =
     \<lparr>problems = [mk_problem 1 100, mk_problem 2 100, mk_problem 3 100],
      submissions = []\<rparr>"

definition db_related_solved :: database where
  "db_related_solved =
     \<lparr>problems = [mk_problem 1 100, mk_problem 2 100, mk_problem 3 100],
      submissions = [mk_submission 1 7 2 ''AC'' 100 0]\<rparr>"

text \<open>
  The state after \<open>user_completed_ids\<close> and then \<open>get_related_problems\<close> (limit 8) were
  called for alice and problem 1 on \<open>db_related\<close>, starting from the empty cache.
\<close>

definition world_after_first_call :: world where
  "world_after_first_call =
     snd (get_related_problems env_on db_related (Some alice) (mk_problem 1 100) 8
            (snd (user_completed_ids db_related alice empty_world)))"

section \<open>Properties of the ID-set resolvers\<close>

lemma sql_max_ge: "sql_max xs = Some m \<Longrightarrow> x \<in> set xs \<Longrightarrow> x \<le> m"
proof (cases xs)
  case Nil
  then show "sql_max xs = Some m \<Longrightarrow> x \<in> set xs \<Longrightarrow> x \<le> m" by simp
next
  case (Cons a as)
  assume m: "sql_max xs = Some m" and x: "x \<in> set xs"
  have "fold max as a = Max (set (a # as))" by (rule Max.set_eq_fold [symmetric])
  with m Cons have "m = Max (set (a # as))" by simp
  with x Cons show "x \<le> m" by simp
qed

lemma dom_dict_of_aux: "dom (fold (\<lambda>(k, v) m. m(k \<mapsto> v)) kvs m0) = dom m0 \<union> fst ` set kvs"
  by (induction kvs arbitrary: m0) (auto split: prod.splits)

lemma dom_dict_of: "dom (dict_of kvs) = fst ` set kvs"
  by (simp add: dict_of_def dom_dict_of_aux)

lemma set_join_problem:
  "set (join_problem d) = {(s, p). s \<in> set (submissions d) \<and> p \<in> set (problems d) \<and> s_problem s = p_id p}"
  by (auto simp: join_problem_def)

lemma user_completed_query_iff:
  "i \<in> user_completed_query d pr \<longleftrightarrow>
     (\<exists>s\<in>set (submissions d). \<exists>p\<in>set (problems d).
        s_user s = pr_id pr \<and> s_result s = ''AC'' \<and> s_problem s = i \<and> p_id p = i \<and>
        s_points s = p_points p)"
proof
  assume "i \<in> user_completed_query d pr"
  then obtain s p where "(s, p) \<in> set (join_problem d)" "s_user s = pr_id pr"
      "s_result s = ''AC''" "s_points s = p_points p" "i = s_problem s"
    by (auto simp: user_completed_query_def)
  then show "\<exists>s\<in>set (submissions d). \<exists>p\<in>set (problems d).
        s_user s = pr_id pr \<and> s_result s = ''AC'' \<and> s_problem s = i \<and> p_id p = i \<and>
        s_points s = p_points p"
    by (auto simp: set_join_problem)
next
  assume "\<exists>s\<in>set (submissions d). \<exists>p\<in>set (problems d).
        s_user s = pr_id pr \<and> s_result s = ''AC'' \<and> s_problem s = i \<and> p_id p = i \<and>
        s_points s = p_points p"
  then obtain s p where sp: "s \<in> set (submissions d)" "p \<in> set (problems d)"
      "s_user s = pr_id pr" "s_result s = ''AC''" "s_problem s = i" "p_id p = i"
      "s_points s = p_points p"
    by blast
  then have "(s, p) \<in> set (join_problem d)"
    by (simp add: set_join_problem)
  with sp show "i \<in> user_completed_query d pr"
    by (force simp: user_completed_query_def image_iff)
qed

lemma user_completed_ids_miss_eq:
  "cache_get (''user_complete:'' @ str_int (pr_id pr)) w = None \<Longrightarrow>
   fst (user_completed_ids d pr w) = IdSet (user_completed_query d pr)"
  by (simp add: user_completed_ids_def Let_def)

lemma user_completed_ids_hit_eq:
  "cache_get (''user_complete:'' @ str_int (pr_id pr)) w = Some entry \<Longrightarrow>
   user_completed_ids d pr w = (entry, w)"
  by (simp add: user_completed_ids_def Let_def)

text \<open>
  Claim C1, as amended. When \<^verbatim>\<open>user_complete:<id>\<close> is not in the cache,
  \<open>user_completed_ids\<close> returns exactly the set of ids of the problems for which some
  submission of the profile has the result \<^verbatim>\<open>AC\<close> and points equal to the
  problem's points; an entry found in the cache is returned as it is. The claim as
  written leaves out the condition on the result.
\<close>

theorem user_completed_ids_exact:
  "fst (user_completed_ids d pr w) =
     (case cache_get (''user_complete:'' @ str_int (pr_id pr)) w of
        None \<Rightarrow>
          IdSet {i. \<exists>s\<in>set (submissions d). \<exists>p\<in>set (problems d).
            s_user s = pr_id pr \<and> s_result s = ''AC'' \<and> s_problem s = i \<and> p_id p = i \<and>
            s_points s = p_points p}
      | Some entry \<Rightarrow> entry)"
proof (cases "cache_get (''user_complete:'' @ str_int (pr_id pr)) w")
  case None
  have "user_completed_query d pr = {i. \<exists>s\<in>set (submissions d). \<exists>p\<in>set (problems d).
        s_user s = pr_id pr \<and> s_result s = ''AC'' \<and> s_problem s = i \<and> p_id p = i \<and>
        s_points s = p_points p}"
    using user_completed_query_iff [of _ d pr] by blast
  with None show ?thesis
    by (simp add: user_completed_ids_miss_eq)
next
  case (Some entry)
  then show ?thesis
    by (simp add: user_completed_ids_hit_eq)
qed

lemma cache_get_empty: "cache_get k empty_world = None"
  by (simp add: cache_get_def empty_world_def)

lemma alice_key: "str_int (pr_id alice) = ''7''"
  by (simp add: alice_def str_int_def str_nat.simps)

text \<open>
  Witness for C1. On a miss: alice on \<open>db_solved\<close>, nothing cached; problem 1 is in,
  problem 2 is not. On a hit: the empty set cached on \<open>db_partial\<close> is what a later call
  returns, also after problem 2 was solved.
\<close>

theorem user_completed_ids_exact_witness:
  "cache_get (''user_complete:'' @ str_int (pr_id alice)) empty_world = None \<and>
   (\<exists>S. fst (user_completed_ids db_solved alice empty_world) = IdSet S \<and> 1 \<in> S \<and> 2 \<notin> S) \<and>
   cache_get (''user_complete:'' @ str_int (pr_id alice))
     (snd (user_completed_ids db_partial alice empty_world)) = Some (IdSet {}) \<and>
   fst (user_completed_ids db_partial_then_solved alice
     (snd (user_completed_ids db_partial alice empty_world))) = IdSet {}"
proof -
  have h: "cache_get (''user_complete:'' @ str_int (pr_id alice)) empty_world = None"
    by (rule cache_get_empty)
  have q: "user_completed_query db_partial alice = {}"
    by (simp add: user_completed_query_def join_problem_def db_partial_def alice_def
        mk_problem_def mk_submission_def)
  have c: "cache_get (''user_complete:'' @ str_int (pr_id alice))
     (snd (user_completed_ids db_partial alice empty_world)) = Some (IdSet {})"
    by (simp add: user_completed_ids_def cache_get_empty Let_def q)
       (simp add: cache_get_def cache_set_def)
  from user_completed_ids_exact [of db_solved alice empty_world] h
  have a: "\<exists>S. fst (user_completed_ids db_solved alice empty_world) = IdSet S \<and> 1 \<in> S \<and> 2 \<notin> S"
    by (simp add: db_solved_def alice_def mk_problem_def mk_submission_def)
  from user_completed_ids_exact [of db_partial_then_solved alice
      "snd (user_completed_ids db_partial alice empty_world)"] c
  have b: "fst (user_completed_ids db_partial_then_solved alice
     (snd (user_completed_ids db_partial alice empty_world))) = IdSet {}"
    by simp
  from h a c b show ?thesis by simp
qed

text \<open>
  Counterexample to C1 as written: on \<open>db_wrong_full\<close> alice has a submission to problem
  1 whose points equal the problem's points, but its result is \<^verbatim>\<open>WA\<close>, and the
  function returns the empty set.
\<close>

theorem user_completed_ids_points_only_counterexample:
  "fst (user_completed_ids db_wrong_full alice empty_world) = IdSet {} \<and>
   (\<exists>s\<in>set (submissions db_wrong_full). \<exists>p\<in>set (problems db_wrong_full).
      s_user s = pr_id alice \<and> s_problem s = 1 \<and> p_id p = 1 \<and> s_points s = p_points p)"
  by (simp add: user_completed_ids_def user_completed_query_def join_problem_def
      cache_get_empty Let_def db_wrong_full_def alice_def mk_problem_def mk_submission_def)

lemma set_group_by:
  "(k, g) \<in> set (group_by key rows) \<longleftrightarrow> k \<in> key ` set rows \<and> g = filter (\<lambda>r. key r = k) rows"
  by (auto simp: group_by_def)

lemma user_attempted_rows_D:
  assumes "(i, mp, c, n, points, latest) \<in> set (user_attempted_rows d pr)"
  shows "\<exists>s0 p0. (s0, p0) \<in> set (join_problem d) \<and> s_user s0 = pr_id pr \<and> p_id p0 = i \<and>
           p_points p0 = mp \<and> p_code p0 = c \<and> p_name p0 = n \<and> points < mp \<and>
           sql_max (map (\<lambda>(s, p). s_points s)
             (filter (\<lambda>r. (\<lambda>(s, p). (p_id p, p_points p, p_code p, p_name p)) r = (i, mp, c, n))
               (filter (\<lambda>(s, p). s_user s = pr_id pr) (join_problem d)))) = Some points"
proof -
  let ?F = "filter (\<lambda>(s, p). s_user s = pr_id pr) (join_problem d)"
  let ?key = "\<lambda>(s, p). (p_id p, p_points p, p_code p, p_name p)"
  from assms obtain k g where kg: "(k, g) \<in> set (group_by ?key ?F)"
    and row: "(i, mp, c, n, points, latest) \<in> set (case k of (i, mp, c, n) \<Rightarrow>
         case (sql_max (map (\<lambda>(s, p). s_points s) g), sql_max (map (\<lambda>(s, p). s_id s) g)) of
           (Some points, Some latest) \<Rightarrow>
             if points < mp then [(i, mp, c, n, points, latest)] else []
         | _ \<Rightarrow> [])"
    unfolding user_attempted_rows_def by auto
  from row have k: "k = (i, mp, c, n)" and lt: "points < mp"
    and mx: "sql_max (map (\<lambda>(s, p). s_points s) g) = Some points"
    by (auto split: prod.splits option.splits if_splits)
  from kg have kin: "k \<in> ?key ` set ?F" and g: "g = filter (\<lambda>r. ?key r = k) ?F"
    by (simp_all add: set_group_by)
  from kin k obtain s0 p0 where "(s0, p0) \<in> set ?F" "?key (s0, p0) = (i, mp, c, n)"
    by auto
  then have "(s0, p0) \<in> set (join_problem d) \<and> s_user s0 = pr_id pr \<and> p_id p0 = i \<and>
      p_points p0 = mp \<and> p_code p0 = c \<and> p_name p0 = n"
    by auto
  with lt mx g k show ?thesis by blast
qed

lemma completed_attempted_disjoint:
  assumes uniq: "distinct (map p_id (problems d))"
  shows "user_completed_query d pr \<inter> dom (user_attempted_query d pr) = {}"
proof (rule ccontr)
  assume "user_completed_query d pr \<inter> dom (user_attempted_query d pr) \<noteq> {}"
  then obtain i where ic: "i \<in> user_completed_query d pr"
    and ia: "i \<in> dom (user_attempted_query d pr)" by blast
  from ic obtain s p where s: "s \<in> set (submissions d)" and p: "p \<in> set (problems d)"
    and su: "s_user s = pr_id pr" and sp: "s_problem s = i" and pi: "p_id p = i"
    and full: "s_points s = p_points p"
    unfolding user_completed_query_iff by blast
  from ia obtain mp c n points latest
    where "(i, mp, c, n, points, latest) \<in> set (user_attempted_rows d pr)"
    by (auto simp: user_attempted_query_def dom_dict_of image_iff)
  from user_attempted_rows_D [OF this] obtain s0 p0 where
    j0: "(s0, p0) \<in> set (join_problem d)" and p0i: "p_id p0 = i" and p0m: "p_points p0 = mp"
    and p0c: "p_code p0 = c" and p0n: "p_name p0 = n"
    and lt: "points < mp"
    and mx: "sql_max (map (\<lambda>(s, p). s_points s)
             (filter (\<lambda>r. (\<lambda>(s, p). (p_id p, p_points p, p_code p, p_name p)) r = (i, mp, c, n))
               (filter (\<lambda>(s, p). s_user s = pr_id pr) (join_problem d)))) = Some points"
    by blast
  from j0 have "p0 \<in> set (problems d)" by (simp add: set_join_problem)
  with uniq p pi p0i have pp: "p0 = p"
    by (metis distinct_map inj_onD)
  have "(s, p) \<in> set (join_problem d)"
    using s p sp pi by (simp add: set_join_problem)
  with su pp p0i p0m p0c p0n have "s_points s \<in> set (map (\<lambda>(s, p). s_points s)
             (filter (\<lambda>r. (\<lambda>(s, p). (p_id p, p_points p, p_code p, p_name p)) r = (i, mp, c, n))
               (filter (\<lambda>(s, p). s_user s = pr_id pr) (join_problem d))))"
    by (force simp: image_iff)
  from sql_max_ge [OF mx this] have "s_points s \<le> points" .
  with lt full pp p0m show False by simp
qed

lemma user_attempted_ids_miss_eq:
  "cache_get (''user_attempted:'' @ str_int (pr_id pr)) w = None \<Longrightarrow>
   fst (user_attempted_ids d pr w) = AttemptedDict (user_attempted_query d pr)"
  by (simp add: user_attempted_ids_def Let_def)

text \<open>
  Claim C9, as amended. On one state of the database in which problem ids are unique
  (the primary key), the set \<open>user_completed_ids\<close> computes on a cache miss and the key
  set of the mapping \<open>user_attempted_ids\<close> computes on a cache miss are disjoint.
\<close>

theorem completed_attempted_ids_disjoint:
  assumes "distinct (map p_id (problems d))"
    and "cache_get (''user_complete:'' @ str_int (pr_id pr)) w = None"
    and "cache_get (''user_attempted:'' @ str_int (pr_id pr)) w' = None"
  shows "\<exists>C A. fst (user_completed_ids d pr w) = IdSet C \<and>
           fst (user_attempted_ids d pr w') = AttemptedDict A \<and> C \<inter> dom A = {}"
  using assms
  by (simp add: user_completed_ids_miss_eq user_attempted_ids_miss_eq completed_attempted_disjoint)

lemma user_attempted_query_db_solved:
  "dom (user_attempted_query db_solved alice) = {2}"
  by (simp add: user_attempted_query_def user_attempted_rows_def dom_dict_of group_by_def
      join_problem_def db_solved_def alice_def mk_problem_def mk_submission_def)

lemma user_completed_query_db_solved:
  "user_completed_query db_solved alice = {1}"
  by (simp add: user_completed_query_def 
      join_problem_def db_solved_def alice_def mk_problem_def mk_submission_def)

text \<open>
  Witness for C9: both functions called in a row on \<open>db_solved\<close>, starting from the empty
  cache; problem 1 is completed, problem 2 attempted.
\<close>

theorem completed_attempted_ids_disjoint_witness:
  "distinct (map p_id (problems db_solved)) \<and>
   cache_get (''user_complete:'' @ str_int (pr_id alice)) empty_world = None \<and>
   cache_get (''user_attempted:'' @ str_int (pr_id alice))
     (snd (user_completed_ids db_solved alice empty_world)) = None \<and>
   (\<exists>C A. fst (user_completed_ids db_solved alice empty_world) = IdSet C \<and>
      fst (user_attempted_ids db_solved alice
        (snd (user_completed_ids db_solved alice empty_world))) = AttemptedDict A \<and>
      C \<inter> dom A = {} \<and> 1 \<in> C \<and> 2 \<in> dom A)"
proof -
  have h1: "distinct (map p_id (problems db_solved))"
    by (simp add: db_solved_def mk_problem_def)
  have h2: "cache_get (''user_complete:'' @ str_int (pr_id alice)) empty_world = None"
    by (rule cache_get_empty)
  have h3: "cache_get (''user_attempted:'' @ str_int (pr_id alice))
     (snd (user_completed_ids db_solved alice empty_world)) = None"
    by (simp add: user_completed_ids_def cache_get_empty Let_def)
       (simp add: cache_get_def cache_set_def issue_def empty_world_def)
  from completed_attempted_ids_disjoint [OF h1 h2 h3] h2 h3
  have "user_completed_query db_solved alice \<inter> dom (user_attempted_query db_solved alice) = {}"
    by (simp add: user_completed_ids_miss_eq user_attempted_ids_miss_eq)
  with h1 h2 h3 show ?thesis
    by (simp add: user_completed_ids_miss_eq user_attempted_ids_miss_eq
        user_attempted_query_db_solved user_completed_query_db_solved)
qed

text \<open>
  Counterexample to C9 as written: \<open>user_attempted_ids\<close> is called while problem 2 is only
  attempted, which caches the mapping for a day; alice then solves the problem. Now
  \<open>user_completed_ids\<close> returns \<open>{2}\<close> and \<open>user_attempted_ids\<close> still returns the cached
  mapping with key 2.
\<close>

theorem completed_attempted_stale_counterexample:
  "fst (user_completed_ids db_partial_then_solved alice
          (snd (user_attempted_ids db_partial alice empty_world))) = IdSet {2} \<and>
   (\<exists>A. fst (user_attempted_ids db_partial_then_solved alice
          (snd (user_completed_ids db_partial_then_solved alice
             (snd (user_attempted_ids db_partial alice empty_world))))) = AttemptedDict A \<and>
        2 \<in> dom A)"
proof -
  have k: "str_int (pr_id alice) = ''7''"
    by (simp add: alice_def str_int_def str_nat.simps)
  have a0: "dom (user_attempted_query db_partial alice) = {2}"
    by (simp add: user_attempted_query_def user_attempted_rows_def dom_dict_of group_by_def
        join_problem_def db_partial_def alice_def mk_problem_def mk_submission_def)
  have c1: "user_completed_query db_partial_then_solved alice = {2}"
    by (simp add: user_completed_query_def join_problem_def db_partial_then_solved_def
        alice_def mk_problem_def mk_submission_def)
  show ?thesis
    by (simp add: user_completed_ids_def user_attempted_ids_def Let_def k cache_get_def
        cache_set_def issue_def empty_world_def a0 c1)
qed

section \<open>Properties of the result histogram builder\<close>

lemma dict_update_fresh: "k \<notin> fst ` set al \<Longrightarrow> dict_update k v al = al @ [(k, v)]"
  by (induction al) auto

lemma fold_dict_update_distinct:
  "distinct (map fst raw) \<Longrightarrow> fst ` set acc \<inter> fst ` set raw = {} \<Longrightarrow>
   fold (\<lambda>(k, v). dict_update k v) raw acc = acc @ raw"
proof (induction raw arbitrary: acc)
  case Nil
  then show ?case by simp
next
  case (Cons kv raw)
  obtain k v where kv: "kv = (k, v)" by (cases kv)
  from Cons.prems kv have fresh: "k \<notin> fst ` set acc" by auto
  have "fold (\<lambda>(k, v). dict_update k v) (kv # raw) acc
      = fold (\<lambda>(k, v). dict_update k v) raw (acc @ [(k, v)])"
    using fresh by (simp add: kv dict_update_fresh)
  also have "\<dots> = (acc @ [(k, v)]) @ raw"
    using Cons.prems kv by (intro Cons.IH) (auto simp: image_Un)
  finally show ?case by (simp add: kv)
qed

lemma defaultdict_int_distinct: "distinct (map fst raw) \<Longrightarrow> defaultdict_int raw = raw"
  using fold_dict_update_distinct [of raw "[]"] by (simp add: defaultdict_int_def)

lemma map_fst_result_counts: "map fst (result_counts subs) = remdups (map s_result subs)"
  by (simp add: result_counts_def group_by_def comp_def)

lemma defaultdict_result_counts: "defaultdict_int (result_counts subs) = result_counts subs"
  by (rule defaultdict_int_distinct) (simp add: map_fst_result_counts)

lemma getitem_fst: "fst (getitem al k) = lookup0 al k"
  by (simp add: getitem_def lookup0_def split: option.splits)

lemma getitem_sum: "sum_list (map snd (snd (getitem al k))) = sum_list (map snd al)"
  by (simp add: getitem_def split: option.splits)

lemma getitem_lookup0: "lookup0 (snd (getitem al k)) k' = lookup0 al k'"
  by (auto simp: getitem_def lookup0_def map_of_append split: option.splits if_splits)

lemma map_of_result_counts:
  "map_of (result_counts subs) r =
     (if r \<in> s_result ` set subs then Some (result_count subs r) else None)"
proof -
  have "map_of (map (\<lambda>k. (k, result_count subs k)) ks) r =
        (if r \<in> set ks then Some (result_count subs r) else None)" for ks
    by (induction ks) auto
  from this [of "remdups (map s_result subs)"] show ?thesis
    by (simp add: result_counts_def group_by_def result_count_def comp_def)
qed

lemma lookup0_result_counts: "lookup0 (result_counts subs) r = result_count subs r"
proof (cases "r \<in> s_result ` set subs")
  case True
  then show ?thesis by (simp add: lookup0_def map_of_result_counts)
next
  case False
  then have "filter (\<lambda>s. s_result s = r) subs = []"
    by (auto simp: filter_empty_conv)
  with False show ?thesis by (simp add: lookup0_def map_of_result_counts result_count_def)
qed

lemma sum_length_filter_keys:
  "finite K \<Longrightarrow> key ` set rows \<subseteq> K \<Longrightarrow>
   (\<Sum>k\<in>K. length (filter (\<lambda>r. key r = k) rows)) = length rows"
proof (induction rows)
  case Nil
  then show ?case by simp
next
  case (Cons x xs)
  have "(\<Sum>k\<in>K. length (filter (\<lambda>r. key r = k) (x # xs)))
      = (\<Sum>k\<in>K. (if k = key x then 1 else 0) + length (filter (\<lambda>r. key r = k) xs))"
    by (intro sum.cong) auto
  also have "\<dots> = (\<Sum>k\<in>K. (if k = key x then 1 else 0)) + (\<Sum>k\<in>K. length (filter (\<lambda>r. key r = k) xs))"
    by (simp add: sum.distrib)
  also have "\<dots> = 1 + length xs"
    using Cons by (simp)
  finally show ?case by simp
qed

lemma sum_result_counts: "sum_list (map snd (result_counts subs)) = int (length subs)"
proof -
  have "sum_list (map snd (result_counts subs))
      = (\<Sum>k\<leftarrow>remdups (map s_result subs). int (length (filter (\<lambda>s. s_result s = k) subs)))"
    by (simp add: result_counts_def group_by_def comp_def)
  also have "\<dots> = (\<Sum>k\<in>s_result ` set subs. int (length (filter (\<lambda>s. s_result s = k) subs)))"
    by (simp add: sum_list_distinct_conv_sum_set)
  also have "\<dots> = int (\<Sum>k\<in>s_result ` set subs. length (filter (\<lambda>s. s_result s = k) subs))"
    by simp
  also have "\<dots> = int (length subs)"
    by (subst sum_length_filter_keys) simp_all
  finally show ?thesis .
qed

lemma u_get_result_data_eq:
  "u_get_result_data results =
     \<lparr>categories =
        [\<lparr>cat_code = ''AC'', cat_name = ''Accepted'', cat_count = lookup0 results ''AC''\<rparr>,
         \<lparr>cat_code = ''WA'', cat_name = ''Wrong'', cat_count = lookup0 results ''WA''\<rparr>,
         \<lparr>cat_code = ''CE'', cat_name = ''Compile Error'', cat_count = lookup0 results ''CE''\<rparr>,
         \<lparr>cat_code = ''TLE'', cat_name = ''Timeout'', cat_count = lookup0 results ''TLE''\<rparr>,
         \<lparr>cat_code = ''ERR'', cat_name = ''Error'',
          cat_count = lookup0 results ''MLE'' + lookup0 results ''OLE'' + lookup0 results ''IR''
            + lookup0 results ''RTE'' + lookup0 results ''AB'' + lookup0 results ''IE''\<rparr>],
      total = sum_list (map snd results)\<rparr>"
  by (simp add: u_get_result_data_def Let_def split_beta getitem_fst getitem_sum getitem_lookup0)

lemma histogram_eq:
  "u_get_result_data (defaultdict_int (result_counts subs)) =
     \<lparr>categories =
        [\<lparr>cat_code = ''AC'', cat_name = ''Accepted'', cat_count = result_count subs ''AC''\<rparr>,
         \<lparr>cat_code = ''WA'', cat_name = ''Wrong'', cat_count = result_count subs ''WA''\<rparr>,
         \<lparr>cat_code = ''CE'', cat_name = ''Compile Error'', cat_count = result_count subs ''CE''\<rparr>,
         \<lparr>cat_code = ''TLE'', cat_name = ''Timeout'', cat_count = result_count subs ''TLE''\<rparr>,
         \<lparr>cat_code = ''ERR'', cat_name = ''Error'',
          cat_count = result_count subs ''MLE'' + result_count subs ''OLE''
            + result_count subs ''IR'' + result_count subs ''RTE'' + result_count subs ''AB''
            + result_count subs ''IE''\<rparr>],
      total = int (length subs)\<rparr>"
  by (simp add: u_get_result_data_eq defaultdict_result_counts lookup0_result_counts
      sum_result_counts)

lemma length_by_verdict:
  assumes "\<forall>s\<in>set subs. s_result s \<in> set verdict_codes"
  shows "int (length subs) = (\<Sum>c\<leftarrow>verdict_codes. result_count subs c)"
proof -
  have d: "distinct verdict_codes" by (simp add: verdict_codes_def)
  have "(\<Sum>c\<leftarrow>verdict_codes. result_count subs c)
      = (\<Sum>c\<in>set verdict_codes. int (length (filter (\<lambda>s. s_result s = c) subs)))"
    using d by (simp add: sum_list_distinct_conv_sum_set result_count_def)
  also have "\<dots> = int (\<Sum>c\<in>set verdict_codes. length (filter (\<lambda>s. s_result s = c) subs))"
    by simp
  also have "\<dots> = int (length subs)"
    using assms by (subst sum_length_filter_keys) auto
  finally show ?thesis by simp
qed

lemma length_by_verdict_general:
  "int (length subs) = (\<Sum>c\<leftarrow>verdict_codes. result_count subs c)
     + int (length (filter (\<lambda>s. s_result s \<notin> set verdict_codes) subs))"
proof -
  let ?known = "filter (\<lambda>s. s_result s \<in> set verdict_codes) subs"
  have d: "distinct verdict_codes" by (simp add: verdict_codes_def)
  have "result_count subs c = result_count ?known c" if "c \<in> set verdict_codes" for c
  proof -
    have "filter (\<lambda>s. s_result s = c) ?known = filter (\<lambda>s. s_result s = c) subs"
      using that by (auto intro: filter_cong)
    then show ?thesis by (simp add: result_count_def)
  qed
  then have "(\<Sum>c\<leftarrow>verdict_codes. result_count subs c) = (\<Sum>c\<leftarrow>verdict_codes. result_count ?known c)"
    by (intro arg_cong [where f = sum_list] map_cong) simp_all
  also have "\<dots> = int (length ?known)"
    by (rule length_by_verdict [symmetric]) simp
  finally have "(\<Sum>c\<leftarrow>verdict_codes. result_count subs c) = int (length ?known)" .
  moreover have "length subs = length ?known + length (filter (\<lambda>s. s_result s \<notin> set verdict_codes) subs)"
    by (rule sum_length_filter_compl [symmetric])
  ultimately show ?thesis by simp
qed

text \<open>
  The total is the sum over every result code of the query's output: a code outside the
  ten would add to the total and to no category.
\<close>

lemma get_result_data_totals_general:
  "\<exists>r. get_result_data d (subs # rest) [] = Inr r \<and>
     map cat_code (categories r) = [''AC'', ''WA'', ''CE'', ''TLE'', ''ERR''] \<and>
     total r = sum_list (map cat_count (categories r))
               + int (length (filter (\<lambda>s. s_result s \<notin> set verdict_codes) subs)) \<and>
     cat_count (categories r ! 4) =
       result_count subs ''MLE'' + result_count subs ''OLE'' + result_count subs ''IR''
       + result_count subs ''RTE'' + result_count subs ''AB'' + result_count subs ''IE'' \<and>
     (\<forall>c\<in>set (categories r). 0 \<le> cat_count c)"
proof -
  have nn: "0 \<le> result_count subs c" for c
    by (simp add: result_count_def)
  have "get_result_data d (subs # rest) [] = Inr (u_get_result_data (defaultdict_int (result_counts subs)))"
    by (simp add: get_result_data_def)
  then show ?thesis
    unfolding histogram_eq using length_by_verdict_general [of subs]
    by (simp add: nn verdict_codes_def)
qed

text \<open>
  Claim C3. For every submission collection passed to \<open>get_result_data\<close> (its results
  among the ten verdict codes of the data model), the total equals the sum of the five
  category counts, the count of the category \<^verbatim>\<open>ERR\<close> (the fifth) is the sum of the
  counts of the codes MLE, OLE, IR, RTE, AB and IE, and no category count is negative.
\<close>

theorem get_result_data_totals:
  assumes "\<forall>s\<in>set subs. s_result s \<in> set verdict_codes"
  shows "\<exists>r. get_result_data d (subs # rest) [] = Inr r \<and>
     map cat_code (categories r) = [''AC'', ''WA'', ''CE'', ''TLE'', ''ERR''] \<and>
     total r = sum_list (map cat_count (categories r)) \<and>
     cat_count (categories r ! 4) =
       result_count subs ''MLE'' + result_count subs ''OLE'' + result_count subs ''IR''
       + result_count subs ''RTE'' + result_count subs ''AB'' + result_count subs ''IE'' \<and>
     (\<forall>c\<in>set (categories r). 0 \<le> cat_count c)"
proof -
  have nn: "0 \<le> result_count subs c" for c
    by (simp add: result_count_def)
  have tot: "int (length subs) = (\<Sum>c\<leftarrow>verdict_codes. result_count subs c)"
    by (rule length_by_verdict [OF assms])
  have "get_result_data d (subs # rest) [] = Inr (u_get_result_data (defaultdict_int (result_counts subs)))"
    by (simp add: get_result_data_def)
  then show ?thesis
    unfolding histogram_eq using tot
    by (simp add: nn verdict_codes_def)
qed

text \<open>Witness for C3: the four submissions of \<open>db_histogram\<close> (AC, WA, MLE, IR).\<close>

theorem get_result_data_totals_witness:
  "s_result ` set (submissions db_histogram) \<subseteq> set verdict_codes \<and>
   (\<exists>r. get_result_data db_solved [submissions db_histogram] [] = Inr r \<and>
      total r = 4 \<and> map cat_count (categories r) = [1, 1, 0, 0, 2] \<and>
      total r = sum_list (map cat_count (categories r)))"
proof -
  have h: "\<forall>s\<in>set (submissions db_histogram). s_result s \<in> set verdict_codes"
    by (simp add: db_histogram_def mk_submission_def verdict_codes_def)
  from get_result_data_totals [OF h, of db_solved "[]"]
  obtain r where r: "get_result_data db_solved [submissions db_histogram] [] = Inr r"
    and t: "total r = sum_list (map cat_count (categories r))"
    by (elim exE conjE)
  have "get_result_data db_solved [submissions db_histogram] [] =
      Inr (u_get_result_data (defaultdict_int (result_counts (submissions db_histogram))))"
    by (simp add: get_result_data_def)
  with r have c: "map cat_count (categories r) = [1, 1, 0, 0, 2]"
    by (simp add: histogram_eq result_count_def db_histogram_def mk_submission_def)
  with t have "total r = 4" by simp
  with r c t h show ?thesis by (intro conjI exI [of _ r]) auto
qed

text \<open>
  Claim C7. \<open>get_result_data\<close> called with a positional collection and with at least one
  keyword filter raises \<^verbatim>\<open>ValueError\<close>.
\<close>

theorem get_result_data_both_raises:
  assumes "args \<noteq> []" and "kwargs \<noteq> []"
  shows "get_result_data d args kwargs =
           Inl (ValueError ''Can't pass both queryset and keyword filters'')"
  using assms by (cases args) (simp_all add: get_result_data_def)

text \<open>Witness for C7: a collection together with the filter \<^verbatim>\<open>user=7\<close>.\<close>

theorem get_result_data_both_raises_witness:
  "[submissions db_histogram] \<noteq> [] \<and> [(''user'', \<lambda>s. s_user s = 7)] \<noteq> [] \<and>
   get_result_data db_histogram [submissions db_histogram] [(''user'', \<lambda>s. s_user s = 7)] =
     Inl (ValueError ''Can't pass both queryset and keyword filters'')"
proof -
  have a: "[submissions db_histogram] \<noteq> []" by simp
  have k: "[(''user'', \<lambda>s. s_user s = (7::int))] \<noteq> []" by simp
  from get_result_data_both_raises [OF a k] a k show ?thesis by simp
qed

text \<open>
  Claim C10. \<open>get_result_data\<close> called with no positional argument and no keyword filter
  does not fail: the empty filter keeps every row, so the result is the histogram over
  all submissions of the database, the same as for the whole table passed positionally.
\<close>

theorem get_result_data_no_arguments:
  "\<exists>r. get_result_data d [] [] = Inr r \<and> get_result_data d [submissions d] [] = Inr r \<and>
     total r = int (length (submissions d)) \<and>
     map cat_count (categories r) =
       [result_count (submissions d) ''AC'', result_count (submissions d) ''WA'',
        result_count (submissions d) ''CE'', result_count (submissions d) ''TLE'',
        result_count (submissions d) ''MLE'' + result_count (submissions d) ''OLE''
        + result_count (submissions d) ''IR'' + result_count (submissions d) ''RTE''
        + result_count (submissions d) ''AB'' + result_count (submissions d) ''IE'']"
  by (simp add: get_result_data_def objects_filter_def histogram_eq)

text \<open>Witness for C10: the histogram of \<open>db_histogram\<close>.\<close>

theorem get_result_data_no_arguments_witness:
  "\<exists>r. get_result_data db_histogram [] [] = Inr r \<and> total r = 4 \<and>
     map cat_count (categories r) = [1, 1, 0, 0, 2]"
proof -
  from get_result_data_no_arguments [of db_histogram]
  obtain r where r: "get_result_data db_histogram [] [] = Inr r"
    and t: "total r = int (length (submissions db_histogram))"
    and c: "map cat_count (categories r) =
       [result_count (submissions db_histogram) ''AC'', result_count (submissions db_histogram) ''WA'',
        result_count (submissions db_histogram) ''CE'', result_count (submissions db_histogram) ''TLE'',
        result_count (submissions db_histogram) ''MLE'' + result_count (submissions db_histogram) ''OLE''
        + result_count (submissions db_histogram) ''IR'' + result_count (submissions db_histogram) ''RTE''
        + result_count (submissions db_histogram) ''AB'' + result_count (submissions db_histogram) ''IE'']"
    by (elim exE conjE)
  from t have "total r = 4" by (simp add: db_histogram_def)
  moreover from c have "map cat_count (categories r) = [1, 1, 0, 0, 2]"
    by (simp add: result_count_def db_histogram_def mk_submission_def)
  ultimately show ?thesis using r by (intro exI [of _ r]) simp
qed

section \<open>Properties of the hot-problem ranker\<close>

lemma set_insert_desc: "set (insert_desc key x xs) = insert x (set xs)"
  by (induction xs) auto

lemma length_insert_desc: "length (insert_desc key x xs) = Suc (length xs)"
  by (induction xs) auto

lemma sorted_insert_desc:
  "sorted_wrt (\<lambda>a b. key b \<le> key a) xs \<Longrightarrow> sorted_wrt (\<lambda>a b. key b \<le> key a) (insert_desc key x xs)"
  by (induction xs) (auto simp: set_insert_desc)

lemma set_order_by_desc: "set (order_by_desc key xs) = set xs"
  by (induction xs) (simp_all add: order_by_desc_def set_insert_desc)

lemma length_order_by_desc: "length (order_by_desc key xs) = length xs"
  by (induction xs) (simp_all add: order_by_desc_def length_insert_desc)

lemma sorted_order_by_desc: "sorted_wrt (\<lambda>a b. key b \<le> key a) (order_by_desc key xs)"
  by (induction xs) (simp_all add: order_by_desc_def sorted_insert_desc)

lemma order_by_desc_Nil: "order_by_desc key xs = [] \<longleftrightarrow> xs = []"
  using length_order_by_desc [of key xs] by (metis length_0_conv)

lemma order_by_desc_head_Max:
  fixes xs :: "int list"
  assumes "order_by_desc (\<lambda>k. k) xs = k0 # rest"
  shows "k0 = Max (set xs)"
proof -
  have s: "set xs = insert k0 (set rest)"
    using set_order_by_desc [of "\<lambda>k. k" xs] assms by simp
  have "sorted_wrt (\<lambda>a b. b \<le> a) (k0 # rest)"
    using sorted_order_by_desc [of "\<lambda>k. k" xs] assms by simp
  then have "\<forall>y\<in>set rest. y \<le> k0" by simp
  with s show ?thesis
    by (intro Max_eqI [symmetric]) auto
qed

lemma case_when_None: "case_when whens r = None \<longleftrightarrow> r \<notin> fst ` set whens"
  by (induction whens) (auto split: if_splits)

lemma count_expr_case_when:
  "count_expr (map (\<lambda>s. case_when whens (s_result s)) subs) =
     int (length (filter (\<lambda>s. s_result s \<in> fst ` set whens) subs))"
proof -
  have "(case_when whens r \<noteq> None) = (r \<in> fst ` set whens)" for r
    by (simp add: case_when_None)
  then have "filter (\<lambda>s. case_when whens (s_result s) \<noteq> None) subs
      = filter (\<lambda>s. s_result s \<in> fst ` set whens) subs"
    by (intro filter_cong) simp_all
  then show ?thesis
    by (simp add: count_expr_def filter_map comp_def del: not_None_eq)
qed

lemma count_distinct_card: "count_distinct xs = int (card (set xs))"
  by (simp add: count_distinct_def length_remdups_card_conv)

lemma math_e_powr: "math_e powr r = exp r"
  by (simp add: math_e_def powr_def)

lemma hot_ordering_eq:
  "hot_ordering mx p users volume ac =
     (if volume = 0 \<or> mx = 0 then None
      else Some (0.02 * p_points p * (0.4 * real_of_int ac / real_of_int volume + 0.6 * p_ac_rate p)
                 + 100 * exp (real_of_int users / mx)))"
  by (simp add: hot_ordering_def sql_div_def math_e_powr)

lemma window_rows_eq:
  "window_rows d now duration =
     concat (map (\<lambda>p. map (Pair p) (window_submissions d now duration p)) (get_public_problems d))"
proof -
  have h: "concat (map (\<lambda>s. if s_problem s = p_id p
           then if now - duration < s_date s then [(p, s)] else [] else []) subs)
      = map (Pair p) (filter (\<lambda>s. s_problem s = p_id p \<and> now - duration < s_date s) subs)"
    for p :: problem and subs
    by (induction subs) auto
  show ?thesis
    by (simp add: window_rows_def window_submissions_def h)
qed

lemma filter_fst_concat_notin:
  "p \<notin> set ps \<Longrightarrow> filter (\<lambda>r. fst r = p) (concat (map (\<lambda>q. map (Pair q) (g q)) ps)) = []"
  by (induction ps) (auto simp: filter_empty_conv)

lemma filter_fst_concat:
  "distinct ps \<Longrightarrow> p \<in> set ps \<Longrightarrow>
   map snd (filter (\<lambda>r. fst r = p) (concat (map (\<lambda>q. map (Pair q) (g q)) ps))) = g p"
proof (induction ps)
  case Nil
  then show ?case by simp
next
  case (Cons q ps)
  show ?case
  proof (cases "q = p")
    case True
    with Cons.prems have "p \<notin> set ps" by simp
    then have "filter (\<lambda>r. fst r = p) (concat (map (\<lambda>q. map (Pair q) (g q)) ps)) = []"
      by (rule filter_fst_concat_notin)
    moreover have "map snd (filter (\<lambda>r. fst r = p) (map (Pair p) (g p))) = g p"
      by (simp add: filter_map comp_def)
    ultimately show ?thesis using True by simp
  next
    case False
    then have "filter (\<lambda>r. fst r = p) (map (Pair q) (g q)) = []"
      by (auto simp: filter_empty_conv)
    with Cons False show ?thesis by simp
  qed
qed

lemma hot_candidates_D:
  assumes "(p, subs) \<in> set (hot_candidates d now duration)"
  shows "p \<in> set (get_public_problems d)"
    and "subs = map snd (filter (\<lambda>r. fst r = p) (window_rows d now duration))"
    and "subs \<noteq> []"
proof -
  from assms obtain k g where kg: "(k, g) \<in> set (group_by fst (window_rows d now duration))"
    and e: "(p, subs) = (k, map snd g)"
    by (auto simp: hot_candidates_def)
  from kg have kin: "k \<in> fst ` set (window_rows d now duration)"
    and g: "g = filter (\<lambda>r. fst r = k) (window_rows d now duration)"
    by (auto simp: group_by_def)
  from e g show "subs = map snd (filter (\<lambda>r. fst r = p) (window_rows d now duration))" by simp
  from kin e show "p \<in> set (get_public_problems d)"
    by (auto simp: window_rows_def)
  from kin g have "g \<noteq> []" by (auto simp: filter_empty_conv)
  with e show "subs \<noteq> []" by simp
qed

lemma hot_candidates_window:
  assumes uniq: "distinct (map p_id (problems d))"
    and c: "(p, subs) \<in> set (hot_candidates d now duration)"
  shows "subs = window_submissions d now duration p"
proof -
  from uniq have "distinct (problems d)" by (simp add: distinct_map)
  then have dp: "distinct (get_public_problems d)" by (simp add: get_public_problems_def)
  from hot_candidates_D [OF c] have pin: "p \<in> set (get_public_problems d)"
    and s: "subs = map snd (filter (\<lambda>r. fst r = p) (window_rows d now duration))" by simp_all
  from s show ?thesis
    unfolding window_rows_eq using filter_fst_concat [OF dp pin] by simp
qed

lemma hot_problems_hit:
  "cache_get (''hot_problems:'' @ str_int (total_seconds duration) @ '':'' @ str_int limit) w = Some qs \<Longrightarrow>
   hot_problems d now duration limit w = (Inr qs, w)"
  by (simp add: hot_problems_def Let_def)

lemma hot_problems_miss_empty:
  assumes "cache_get (''hot_problems:'' @ str_int (total_seconds duration) @ '':'' @ str_int limit) w = None"
    and "hot_candidates d now duration = []"
  shows "hot_problems d now duration limit w = (Inr (HotList []), issue (DbQuery ''Problem'') w)"
  using assms by (simp add: hot_problems_def Let_def order_by_desc_def)

lemma hot_problems_miss_nonempty:
  assumes miss: "cache_get (''hot_problems:'' @ str_int (total_seconds duration) @ '':'' @ str_int limit) w = None"
    and ne: "hot_candidates d now duration \<noteq> []"
  shows "hot_problems d now duration limit w =
     (let mx = real_of_int (max_user_count d now duration);
          kept = filter (\<lambda>(p, subs).
                   max (mx / 3) 1 < real_of_int (count_distinct (map s_user subs)))
                 (hot_candidates d now duration);
          ranked = order_by_desc ordering (map (annotate_row mx) kept);
          w1 = issue (DbQuery ''Problem'') w
      in if limit < 0 then (Inl NegativeIndexing, w1)
         else (Inr (HotList (take (nat limit) ranked)),
               cache_set (''hot_problems:'' @ str_int (total_seconds duration) @ '':'' @ str_int limit)
                 (HotList (take (nat limit) ranked)) 900 (issue (DbQuery ''Problem'') w1)))"
proof -
  let ?ks = "map (\<lambda>(p, subs). count_distinct (map s_user subs)) (hot_candidates d now duration)"
  from ne have "order_by_desc (\<lambda>k. k) ?ks \<noteq> []" by (simp add: order_by_desc_Nil)
  then obtain k0 rest where q: "order_by_desc (\<lambda>k. k) ?ks = k0 # rest"
    by (cases "order_by_desc (\<lambda>k. k) ?ks") auto
  from order_by_desc_head_Max [OF q] have k0: "k0 = max_user_count d now duration"
    by (simp add: max_user_count_def)
  show ?thesis
    using miss q by (simp add: hot_problems_def Let_def k0)
qed

lemma hot_candidates_empty:
  assumes "\<forall>p\<in>set (get_public_problems d). \<forall>s\<in>set (submissions d).
             s_problem s = p_id p \<longrightarrow> s_date s \<le> now - duration"
  shows "hot_candidates d now duration = []"
proof -
  have "set (window_rows d now duration) = {}"
    using assms by (fastforce simp: window_rows_def)
  then show ?thesis
    by (simp add: hot_candidates_def group_by_def)
qed

text \<open>
  Claim C8, as amended. When no public problem has a submission inside the trailing
  window, \<open>hot_problems\<close> writes nothing to the cache; with no entry under its key it
  returns the empty sequence (and the entry stays absent), and an entry found under its
  key is returned as it is.
\<close>

theorem hot_problems_no_candidates:
  assumes "\<forall>p\<in>set (get_public_problems d). \<forall>s\<in>set (submissions d).
             s_problem s = p_id p \<longrightarrow> s_date s \<le> now - duration"
  shows "cache (snd (hot_problems d now duration limit w)) = cache w \<and>
     cache_get (''hot_problems:'' @ str_int (total_seconds duration) @ '':'' @ str_int limit)
         (snd (hot_problems d now duration limit w))
       = cache_get (''hot_problems:'' @ str_int (total_seconds duration) @ '':'' @ str_int limit) w \<and>
     fst (hot_problems d now duration limit w) =
       (case cache_get (''hot_problems:'' @ str_int (total_seconds duration) @ '':'' @ str_int limit) w of
          None \<Rightarrow> Inr (HotList [])
        | Some entry \<Rightarrow> Inr entry)"
proof (cases "cache_get (''hot_problems:'' @ str_int (total_seconds duration) @ '':'' @ str_int limit) w")
  case None
  from hot_problems_miss_empty [OF None hot_candidates_empty [OF assms]]
  show ?thesis using None by (simp add: issue_def cache_get_def)
next
  case (Some qs)
  then show ?thesis by (simp add: hot_problems_hit)
qed

text \<open>Witness for C8: \<open>db_quiet\<close> and the empty cache.\<close>

theorem hot_problems_no_candidates_witness:
  "list_all (\<lambda>p. list_all (\<lambda>s. s_problem s = p_id p \<longrightarrow> s_date s \<le> 10000000000 - hour)
      (submissions db_quiet)) (get_public_problems db_quiet) \<and>
   cache_get (''hot_problems:'' @ str_int (total_seconds hour) @ '':'' @ str_int 10) empty_world = None \<and>
   fst (hot_problems db_quiet 10000000000 hour 10 empty_world) = Inr (HotList []) \<and>
   cache (snd (hot_problems db_quiet 10000000000 hour 10 empty_world)) = Map.empty"
proof -
  have h: "\<forall>p\<in>set (get_public_problems db_quiet). \<forall>s\<in>set (submissions db_quiet).
             s_problem s = p_id p \<longrightarrow> s_date s \<le> 10000000000 - hour"
    by (simp add: db_quiet_def get_public_problems_def mk_problem_def mk_submission_def hour_def)
  have m: "cache_get (''hot_problems:'' @ str_int (total_seconds hour) @ '':'' @ str_int 10) empty_world = None"
    by (rule cache_get_empty)
  from hot_problems_no_candidates [OF h, of 10 empty_world] m h
  show ?thesis by (simp add: list_all_iff empty_world_def)
qed

lemma hot_candidates_db_tie_noon:
  "hot_candidates db_tie 12000000000 hour =
     [(mk_problem 1 100, [mk_submission 1 7 1 ''AC'' 100 9000000000, mk_submission 2 8 1 ''AC'' 100 9000000001]),
      (mk_problem 2 100, [mk_submission 3 7 2 ''AC'' 100 9000000002, mk_submission 4 8 2 ''AC'' 100 9000000003])]"
  by (simp add: hot_candidates_def window_rows_def group_by_def get_public_problems_def
      db_tie_def hour_def mk_problem_def mk_submission_def str_int_def str_nat.simps)

lemma max_user_count_db_tie_noon: "max_user_count db_tie 12000000000 hour = 2"
  by (simp add: max_user_count_def hot_candidates_db_tie_noon count_distinct_def mk_submission_def)

lemma hot_key_parts: "str_int (total_seconds hour) = ''3600''" "str_int 10 = ''10''"
  by (simp_all add: hour_def total_seconds_def str_int_def str_nat.simps)

lemma hot_first_call:
  "\<exists>r1 r2. hot_problems db_tie 12000000000 hour 10 empty_world =
     (Inr (HotList [r1, r2]),
      cache_set ''hot_problems:3600:10'' (HotList [r1, r2]) 900
        (issue (DbQuery ''Problem'') (issue (DbQuery ''Problem'') empty_world)))"
  using hot_problems_miss_nonempty [of hour 10 empty_world db_tie 12000000000]
  by (simp add: cache_get_empty hot_candidates_db_tie_noon max_user_count_db_tie_noon Let_def
       count_distinct_def mk_submission_def annotate_row_def count_expr_def hot_ordering_eq
       order_by_desc_def hot_key_parts)

text \<open>
  Counterexample to C8 as written. With the clock at \<open>12000000000\<close> the four submissions
  of \<open>db_tie\<close> are inside the last hour, and \<open>hot_problems\<close> caches its two problems for
  900 seconds. 700 seconds later no submission is inside the last hour any more, and a
  second call still returns the two cached problems.
\<close>

theorem hot_problems_stale_counterexample:
  "list_all (\<lambda>p. list_all (\<lambda>s. s_problem s = p_id p \<longrightarrow> s_date s \<le> 12700000000 - hour)
      (submissions db_tie)) (get_public_problems db_tie) \<and>
   (\<exists>r1 r2. fst (hot_problems db_tie 12700000000 hour 10
       (snd (hot_problems db_tie 12000000000 hour 10 empty_world))) = Inr (HotList [r1, r2]))"
proof -
  have a: "list_all (\<lambda>p. list_all (\<lambda>s. s_problem s = p_id p \<longrightarrow> s_date s \<le> 12700000000 - hour)
      (submissions db_tie)) (get_public_problems db_tie)"
    by (simp add: db_tie_def get_public_problems_def mk_problem_def mk_submission_def hour_def)
  from hot_first_call obtain r1 r2 where
    f: "hot_problems db_tie 12000000000 hour 10 empty_world =
     (Inr (HotList [r1, r2]),
      cache_set ''hot_problems:3600:10'' (HotList [r1, r2]) 900
        (issue (DbQuery ''Problem'') (issue (DbQuery ''Problem'') empty_world)))"
    by (elim exE)
  have "fst (hot_problems db_tie 12700000000 hour 10
       (snd (hot_problems db_tie 12000000000 hour 10 empty_world))) = Inr (HotList [r1, r2])"
    unfolding f snd_conv
    by (simp add: hot_problems_def hot_key_parts Let_def cache_get_def cache_set_def)
  with a show ?thesis by (intro conjI exI [of _ r1] exI [of _ r2])
qed

lemma hot_problems_rows:
  assumes miss: "cache_get (''hot_problems:'' @ str_int (total_seconds duration) @ '':'' @ str_int limit) w = None"
    and res: "fst (hot_problems d now duration limit w) = Inr (HotList rows)"
  shows "(hot_candidates d now duration = [] \<and> rows = []) \<or>
     (hot_candidates d now duration \<noteq> [] \<and> 0 \<le> limit \<and>
      rows = take (nat limit) (order_by_desc ordering
        (map (annotate_row (real_of_int (max_user_count d now duration)))
          (filter (\<lambda>(p, subs). max (real_of_int (max_user_count d now duration) / 3) 1
                       < real_of_int (count_distinct (map s_user subs)))
             (hot_candidates d now duration)))))"
proof (cases "hot_candidates d now duration = []")
  case True
  with hot_problems_miss_empty [OF miss True] res show ?thesis by simp
next
  case False
  with hot_problems_miss_nonempty [OF miss False] res show ?thesis
    by (simp add: Let_def split: if_splits)
qed

lemma annotate_row_fields:
  "hr_problem (annotate_row mx (p, subs)) = p"
  "unique_user_count (annotate_row mx (p, subs)) = count_distinct (map s_user subs)"
  "submission_volume (annotate_row mx (p, subs)) =
     int (length (filter (\<lambda>s. s_result s \<in> {''AC'', ''WA'', ''IR'', ''RTE'', ''TLE'', ''OLE''}) subs))"
  "ac_volume (annotate_row mx (p, subs)) = int (length (filter (\<lambda>s. s_result s = ''AC'') subs))"
  "ordering (annotate_row mx (p, subs)) =
     hot_ordering mx p (unique_user_count (annotate_row mx (p, subs)))
       (submission_volume (annotate_row mx (p, subs))) (ac_volume (annotate_row mx (p, subs)))"
  by (simp_all add: annotate_row_def Let_def count_expr_case_when del: case_when.simps)

lemma hot_problems_row_origin:
  assumes miss: "cache_get (''hot_problems:'' @ str_int (total_seconds duration) @ '':'' @ str_int limit) w = None"
    and res: "fst (hot_problems d now duration limit w) = Inr (HotList rows)"
    and r: "r \<in> set rows"
  shows "\<exists>p subs. (p, subs) \<in> set (hot_candidates d now duration) \<and>
           r = annotate_row (real_of_int (max_user_count d now duration)) (p, subs) \<and>
           max (real_of_int (max_user_count d now duration) / 3) 1
             < real_of_int (count_distinct (map s_user subs))"
proof -
  from hot_problems_rows [OF miss res] r
  have "r \<in> set (take (nat limit) (order_by_desc ordering
        (map (annotate_row (real_of_int (max_user_count d now duration)))
          (filter (\<lambda>(p, subs). max (real_of_int (max_user_count d now duration) / 3) 1
                       < real_of_int (count_distinct (map s_user subs)))
             (hot_candidates d now duration)))))"
    by auto
  then have "r \<in> set (map (annotate_row (real_of_int (max_user_count d now duration)))
          (filter (\<lambda>(p, subs). max (real_of_int (max_user_count d now duration) / 3) 1
                       < real_of_int (count_distinct (map s_user subs)))
             (hot_candidates d now duration)))"
    using set_take_subset set_order_by_desc by fastforce
  then show ?thesis by auto
qed

text \<open>
  Claim C2, as amended. On a cache miss, every row of the sequence \<open>hot_problems\<close>
  returns belongs to a candidate problem, carries that problem's number of distinct
  submitters as \<open>unique_user_count\<close>, and that number is strictly greater than
  \<open>max (mx / 3) 1\<close>; the sequence is in non-increasing order of the score (NULL scores
  last), and its length is at most \<open>limit\<close>, or \<open>0\<close> for a negative \<open>limit\<close>. The claim
  as written asks for a strictly descending order.
\<close>

theorem hot_problems_floor_order_limit:
  assumes "cache_get (''hot_problems:'' @ str_int (total_seconds duration) @ '':'' @ str_int limit) w = None"
    and "fst (hot_problems d now duration limit w) = Inr (HotList rows)"
  shows "(\<forall>r\<in>set rows.
            (\<exists>subs. (hr_problem r, subs) \<in> set (hot_candidates d now duration) \<and>
               unique_user_count r = int (card (s_user ` set subs))) \<and>
            max (real_of_int (max_user_count d now duration) / 3) 1
              < real_of_int (unique_user_count r)) \<and>
         sorted_wrt (\<lambda>a b. ordering b \<le> ordering a) rows \<and>
         int (length rows) \<le> max 0 limit"
proof (intro conjI ballI)
  fix r assume r: "r \<in> set rows"
  from hot_problems_row_origin [OF assms r] obtain p subs where
    c: "(p, subs) \<in> set (hot_candidates d now duration)"
    and e: "r = annotate_row (real_of_int (max_user_count d now duration)) (p, subs)"
    and f: "max (real_of_int (max_user_count d now duration) / 3) 1
             < real_of_int (count_distinct (map s_user subs))"
    by blast
  from c e show "\<exists>subs. (hr_problem r, subs) \<in> set (hot_candidates d now duration) \<and>
               unique_user_count r = int (card (s_user ` set subs))"
    by (auto simp: annotate_row_fields count_distinct_card)
  from e f show "max (real_of_int (max_user_count d now duration) / 3) 1
              < real_of_int (unique_user_count r)"
    by (simp add: annotate_row_fields)
next
  from hot_problems_rows [OF assms]
  show "sorted_wrt (\<lambda>a b. ordering b \<le> ordering a) rows"
    by (auto simp: sorted_wrt_take sorted_order_by_desc)
next
  from hot_problems_rows [OF assms]
  show "int (length rows) \<le> max 0 limit"
    by auto
qed

lemma hot_candidates_db_hot:
  "hot_candidates db_hot 10000000000 hour =
     [(mk_problem 1 100, [mk_submission 1 7 1 ''AC'' 100 9000000000, mk_submission 2 8 1 ''WA'' 0 9000000001,
         mk_submission 3 9 1 ''CE'' 0 9000000002]),
      (mk_problem 2 100, [mk_submission 4 7 2 ''AC'' 100 9000000003,
         mk_submission 5 8 2 ''TLE'' 0 9000000004]),
      (mk_problem 3 100, [mk_submission 6 7 3 ''AC'' 100 9000000005])]"
  by (simp add: hot_candidates_def window_rows_def group_by_def get_public_problems_def
      db_hot_def hour_def mk_problem_def mk_submission_def str_int_def str_nat.simps)

lemma max_user_count_db_hot: "max_user_count db_hot 10000000000 hour = 3"
  by (simp add: max_user_count_def hot_candidates_db_hot count_distinct_def mk_submission_def)

lemma hot_problems_db_hot:
  "\<exists>r1 r2. fst (hot_problems db_hot 10000000000 hour 10 empty_world) = Inr (HotList [r1, r2]) \<and>
     hr_problem r1 = mk_problem 1 100 \<and> hr_problem r2 = mk_problem 2 100"
  using hot_problems_miss_nonempty [of hour 10 empty_world db_hot 10000000000]
  apply (simp add: cache_get_empty hot_candidates_db_hot max_user_count_db_hot Let_def
       count_distinct_def mk_submission_def annotate_row_def count_expr_def hot_ordering_eq
       order_by_desc_def mk_problem_def)
  done

lemma hot_miss_3600_10:
  "cache_get (''hot_problems:'' @ str_int (total_seconds hour) @ '':'' @ str_int 10) empty_world = None"
  by (rule cache_get_empty)

text \<open>
  Witness for C2: on \<open>db_hot\<close> the floor is \<open>max (3 / 3) 1 = 1\<close>; problems 1 and 2
  pass it and are returned in this order, problem 3 (one submitter) and the private
  problem 4 are not returned.
\<close>

theorem hot_problems_floor_order_limit_witness:
  "cache_get (''hot_problems:'' @ str_int (total_seconds hour) @ '':'' @ str_int 10) empty_world = None \<and>
   (\<exists>r1 r2. fst (hot_problems db_hot 10000000000 hour 10 empty_world) = Inr (HotList [r1, r2]) \<and>
      hr_problem r1 = mk_problem 1 100 \<and> hr_problem r2 = mk_problem 2 100 \<and>
      max (real_of_int (max_user_count db_hot 10000000000 hour) / 3) 1 < real_of_int (unique_user_count r1) \<and>
      max (real_of_int (max_user_count db_hot 10000000000 hour) / 3) 1 < real_of_int (unique_user_count r2) \<and>
      ordering r2 \<le> ordering r1 \<and> int (length [r1, r2]) \<le> max 0 10)"
proof -
  from hot_problems_db_hot obtain r1 r2 where
    res: "fst (hot_problems db_hot 10000000000 hour 10 empty_world) = Inr (HotList [r1, r2])"
    and p: "hr_problem r1 = mk_problem 1 100" "hr_problem r2 = mk_problem 2 100"
    by (elim exE conjE)
  from hot_problems_floor_order_limit [OF hot_miss_3600_10 res]
  have "max (real_of_int (max_user_count db_hot 10000000000 hour) / 3) 1 < real_of_int (unique_user_count r1)"
    and "max (real_of_int (max_user_count db_hot 10000000000 hour) / 3) 1 < real_of_int (unique_user_count r2)"
    and "ordering r2 \<le> ordering r1" and "int (length [r1, r2]) \<le> max 0 10"
    by simp_all
  with res p hot_miss_3600_10 show ?thesis
    by (intro conjI exI [of _ r1] exI [of _ r2]) simp_all
qed

lemma hot_candidates_db_tie:
  "hot_candidates db_tie 10000000000 hour =
     [(mk_problem 1 100, [mk_submission 1 7 1 ''AC'' 100 9000000000, mk_submission 2 8 1 ''AC'' 100 9000000001]),
      (mk_problem 2 100, [mk_submission 3 7 2 ''AC'' 100 9000000002, mk_submission 4 8 2 ''AC'' 100 9000000003])]"
  by (simp add: hot_candidates_def window_rows_def group_by_def get_public_problems_def
      db_tie_def hour_def mk_problem_def mk_submission_def str_int_def str_nat.simps)

lemma max_user_count_db_tie: "max_user_count db_tie 10000000000 hour = 2"
  by (simp add: max_user_count_def hot_candidates_db_tie count_distinct_def mk_submission_def)

text \<open>
  Counterexample to C2 as written: on \<open>db_tie\<close> both problems are returned and their
  scores are equal, so the sequence is not strictly descending.
\<close>

theorem hot_problems_tie_counterexample:
  "\<exists>r1 r2. fst (hot_problems db_tie 10000000000 hour 10 empty_world) = Inr (HotList [r1, r2]) \<and>
     hr_problem r1 = mk_problem 1 100 \<and> hr_problem r2 = mk_problem 2 100 \<and>
     ordering r1 = ordering r2"
  using hot_problems_miss_nonempty [of hour 10 empty_world db_tie 10000000000]
  by (simp add: cache_get_empty hot_candidates_db_tie max_user_count_db_tie Let_def
       count_distinct_def mk_submission_def annotate_row_def count_expr_def hot_ordering_eq
       order_by_desc_def mk_problem_def)

lemma hot_candidates_db_compile_errors:
  "hot_candidates db_compile_errors 10000000000 hour =
     [(mk_problem 1 100, [mk_submission 1 7 1 ''CE'' 0 9000000000, mk_submission 2 8 1 ''CE'' 0 9000000001])]"
  by (simp add: hot_candidates_def window_rows_def group_by_def get_public_problems_def
      db_compile_errors_def hour_def mk_problem_def mk_submission_def str_int_def str_nat.simps)

lemma max_user_count_db_compile_errors: "max_user_count db_compile_errors 10000000000 hour = 2"
  by (simp add: max_user_count_def hot_candidates_db_compile_errors count_distinct_def mk_submission_def)

text \<open>
  Counterexample to C4 as written: on \<open>db_compile_errors\<close> the problem passes the floor
  with two submitters, its \<open>submission_volume\<close> is \<open>0\<close>, and its score is NULL, not a
  number.
\<close>

theorem hot_problems_zero_volume_counterexample:
  "fst (hot_problems db_compile_errors 10000000000 hour 10 empty_world) =
     Inr (HotList [\<lparr>hr_problem = mk_problem 1 100, unique_user_count = 2, submission_volume = 0,
                     ac_volume = 0, ordering = None\<rparr>])"
  using hot_problems_miss_nonempty [of hour 10 empty_world db_compile_errors 10000000000]
  by (simp add: cache_get_empty hot_candidates_db_compile_errors max_user_count_db_compile_errors
       Let_def count_distinct_def mk_submission_def annotate_row_def count_expr_def hot_ordering_eq
       order_by_desc_def)

lemma max_user_count_pos:
  assumes c: "(p, subs) \<in> set (hot_candidates d now duration)"
  shows "1 \<le> max_user_count d now duration"
proof -
  from hot_candidates_D(3) [OF c] have "set (map s_user subs) \<noteq> {}" by simp
  then have "0 < card (set (map s_user subs))" by (simp add: card_gt_0_iff)
  then have "1 \<le> count_distinct (map s_user subs)" by (simp add: count_distinct_card)
  moreover have "count_distinct (map s_user subs) \<le> max_user_count d now duration"
    unfolding max_user_count_def using c by (intro Max_ge) (auto simp: image_iff intro!: bexI [of _ "(p, subs)"])
  ultimately show ?thesis by simp
qed

text \<open>
  Claim C4, as amended. With unique problem ids, every candidate's group holds exactly
  the problem's submissions inside the window; \<open>submission_volume\<close> counts those among
  them whose result is AC, WA, IR, RTE, TLE or OLE, and \<open>ac_volume\<close> those whose result is
  AC. On a cache miss every returned row is the annotated row of a candidate, and its
  score is
  \<open>0.02 * points * (0.4 * ac_volume / submission_volume + 0.6 * ac_rate)
     + 100 * exp (unique_user_count / mx)\<close>
  when \<open>submission_volume\<close> is not zero, and NULL when it is zero.
\<close>

theorem hot_problems_volumes_and_score:
  assumes uniq: "distinct (map p_id (problems d))"
  shows "(\<forall>c\<in>set (hot_candidates d now duration).
            snd c = window_submissions d now duration (fst c) \<and>
            submission_volume (annotate_row mx c) =
              int (length (filter (\<lambda>s. s_result s \<in> {''AC'', ''WA'', ''IR'', ''RTE'', ''TLE'', ''OLE''}) (snd c))) \<and>
            ac_volume (annotate_row mx c) = int (length (filter (\<lambda>s. s_result s = ''AC'') (snd c)))) \<and>
         (\<forall>rows. cache_get (''hot_problems:'' @ str_int (total_seconds duration) @ '':'' @ str_int limit) w = None
            \<longrightarrow> fst (hot_problems d now duration limit w) = Inr (HotList rows)
            \<longrightarrow> (\<forall>r\<in>set rows.
                  (\<exists>c\<in>set (hot_candidates d now duration).
                      r = annotate_row (real_of_int (max_user_count d now duration)) c) \<and>
                  ordering r =
                    (if submission_volume r = 0 then None
                     else Some (0.02 * p_points (hr_problem r)
                                  * (0.4 * real_of_int (ac_volume r) / real_of_int (submission_volume r)
                                     + 0.6 * p_ac_rate (hr_problem r))
                                + 100 * exp (real_of_int (unique_user_count r)
                                             / real_of_int (max_user_count d now duration))))))"
proof (intro conjI ballI allI impI)
  fix c assume c: "c \<in> set (hot_candidates d now duration)"
  obtain p subs where e: "c = (p, subs)" by (cases c)
  from hot_candidates_window [OF uniq] c e
  show "snd c = window_submissions d now duration (fst c)" by simp
  from e show "submission_volume (annotate_row mx c) =
              int (length (filter (\<lambda>s. s_result s \<in> {''AC'', ''WA'', ''IR'', ''RTE'', ''TLE'', ''OLE''}) (snd c)))"
    by (simp add: annotate_row_fields)
  from e show "ac_volume (annotate_row mx c) = int (length (filter (\<lambda>s. s_result s = ''AC'') (snd c)))"
    by (simp add: annotate_row_fields)
next
  fix rows r
  assume miss: "cache_get (''hot_problems:'' @ str_int (total_seconds duration) @ '':'' @ str_int limit) w = None"
    and res: "fst (hot_problems d now duration limit w) = Inr (HotList rows)"
    and r: "r \<in> set rows"
  from hot_problems_row_origin [OF miss res r] obtain p subs where
    c: "(p, subs) \<in> set (hot_candidates d now duration)"
    and e: "r = annotate_row (real_of_int (max_user_count d now duration)) (p, subs)"
    by blast
  from c e show "\<exists>c\<in>set (hot_candidates d now duration).
                      r = annotate_row (real_of_int (max_user_count d now duration)) c"
    by blast
  from max_user_count_pos [OF c] have nz: "real_of_int (max_user_count d now duration) \<noteq> 0"
    by simp
  have "ordering r = hot_ordering (real_of_int (max_user_count d now duration)) (hr_problem r)
          (unique_user_count r) (submission_volume r) (ac_volume r)"
    unfolding e by (simp add: annotate_row_fields)
  with nz show "ordering r =
                    (if submission_volume r = 0 then None
                     else Some (0.02 * p_points (hr_problem r)
                                  * (0.4 * real_of_int (ac_volume r) / real_of_int (submission_volume r)
                                     + 0.6 * p_ac_rate (hr_problem r))
                                + 100 * exp (real_of_int (unique_user_count r)
                                             / real_of_int (max_user_count d now duration))))"
    by (simp add: hot_ordering_eq)
qed

lemma hot_problems_db_hot_fields:
  "\<exists>r1 r2. fst (hot_problems db_hot 10000000000 hour 10 empty_world) = Inr (HotList [r1, r2]) \<and>
     hr_problem r1 = mk_problem 1 100 \<and> unique_user_count r1 = 3 \<and> submission_volume r1 = 2 \<and>
     ac_volume r1 = 1"
  using hot_problems_miss_nonempty [of hour 10 empty_world db_hot 10000000000]
  by (simp add: cache_get_empty hot_candidates_db_hot max_user_count_db_hot Let_def
       count_distinct_def mk_submission_def annotate_row_def count_expr_def hot_ordering_eq
       order_by_desc_def mk_problem_def)

text \<open>
  Witness for C4: the first row on \<open>db_hot\<close> is problem 1 with volume 2 (the compile
  error is not counted), one accepted submission and three submitters out of at most
  three.
\<close>

theorem hot_problems_volumes_and_score_witness:
  "distinct (map p_id (problems db_hot)) \<and>
   cache_get (''hot_problems:'' @ str_int (total_seconds hour) @ '':'' @ str_int 10) empty_world = None \<and>
   (\<exists>r1 r2. fst (hot_problems db_hot 10000000000 hour 10 empty_world) = Inr (HotList [r1, r2]) \<and>
      hr_problem r1 = mk_problem 1 100 \<and> submission_volume r1 = 2 \<and> ac_volume r1 = 1 \<and>
      ordering r1 = Some (0.02 * 100 * (0.4 * 1 / 2 + 0.6 * 0.5) + 100 * exp (3 / 3)))"
proof -
  have u: "distinct (map p_id (problems db_hot))"
    by (simp add: db_hot_def mk_problem_def)
  from hot_problems_db_hot_fields obtain r1 r2 where
    res: "fst (hot_problems db_hot 10000000000 hour 10 empty_world) = Inr (HotList [r1, r2])"
    and f: "hr_problem r1 = mk_problem 1 100" "unique_user_count r1 = 3"
      "submission_volume r1 = 2" "ac_volume r1 = 1"
    by (elim exE conjE)
  from hot_problems_volumes_and_score [OF u, of 10000000000 hour 0 10 empty_world]
    hot_miss_3600_10 res
  have "ordering r1 =
          (if submission_volume r1 = 0 then None
           else Some (0.02 * p_points (hr_problem r1)
                        * (0.4 * real_of_int (ac_volume r1) / real_of_int (submission_volume r1)
                           + 0.6 * p_ac_rate (hr_problem r1))
                      + 100 * exp (real_of_int (unique_user_count r1)
                                   / real_of_int (max_user_count db_hot 10000000000 hour))))"
    by simp
  with f have "ordering r1 = Some (0.02 * 100 * (0.4 * 1 / 2 + 0.6 * 0.5) + 100 * exp (3 / 3))"
    by (simp add: max_user_count_db_hot mk_problem_def)
  with u hot_miss_3600_10 res f show ?thesis
    by (intro conjI exI [of _ r1] exI [of _ r2]) simp_all
qed

section \<open>Properties of the related-problem recommender\<close>

text \<open>
  Claim C5. When the profile is \<^verbatim>\<open>None\<close> or the setting
  \<^verbatim>\<open>ML_OUTPUT_PATH\<close> is unset or empty, \<open>get_related_problems\<close> returns
  \<^verbatim>\<open>None\<close> and leaves the state as it was: no query against the database or the
  similarity model is added to the trace, and the cache is neither read into the result
  nor written.
\<close>

theorem get_related_problems_disabled:
  assumes "profile = None \<or> falsy (ML_OUTPUT_PATH e)"
  shows "get_related_problems e d profile target limit w = (Inr None, w)"
  using assms by (auto simp: get_related_problems_def split: option.splits)

text \<open>Witness for C5: no profile with the feature on, and a profile with the feature off.\<close>

theorem get_related_problems_disabled_witness:
  "falsy (ML_OUTPUT_PATH env_off) \<and>
   get_related_problems env_on db_related None (mk_problem 1 100) 8 empty_world
     = (Inr None, empty_world) \<and>
   get_related_problems env_off db_related (Some alice) (mk_problem 1 100) 8 empty_world
     = (Inr None, empty_world)"
proof -
  have f: "falsy (ML_OUTPUT_PATH env_off)"
    by (simp add: falsy_def env_off_def)
  have n: "(None :: profile option) = None \<or> falsy (ML_OUTPUT_PATH env_on)" by simp
  from f have s: "Some alice = None \<or> falsy (ML_OUTPUT_PATH env_off)" by simp
  from get_related_problems_disabled [OF n] get_related_problems_disabled [OF s] f
  show ?thesis by simp
qed

lemma objects_get_Inr: "objects_get d i = Inr p \<Longrightarrow> p_id p = i \<and> p \<in> set (problems d)"
proof -
  assume a: "objects_get d i = Inr p"
  then have "filter (\<lambda>p. p_id p = i) (problems d) = [p]"
    by (auto simp: objects_get_def split: list.splits)
  then have "p \<in> set (filter (\<lambda>p. p_id p = i) (problems d))" by simp
  then show ?thesis by simp
qed

lemma get_each_ids: "get_each d ids w = (Inr ps, w') \<Longrightarrow> map p_id ps = ids"
proof (induction ids arbitrary: w ps w')
  case Nil
  then show ?case by simp
next
  case (Cons i ids)
  then show ?case
    by (auto simp: Let_def dest: objects_get_Inr split: sum.splits prod.splits)
qed

lemma get_each_trace: "set (trace w) \<subseteq> set (trace (snd (get_each d ids w)))"
proof (induction ids arbitrary: w)
  case Nil
  then show ?case by simp
next
  case (Cons i ids)
  have "set (trace w) \<subseteq> set (trace (issue (DbQuery ''Problem'') w))"
    by (auto simp: issue_def)
  with Cons [of "issue (DbQuery ''Problem'') w"] show ?case
    by (auto simp: Let_def split: sum.splits prod.splits)
qed

lemma length_py_slice_to: "0 \<le> n \<Longrightarrow> int (length (py_slice_to n xs)) \<le> n"
  by (simp add: py_slice_to_def)

lemma set_py_slice_to: "set (py_slice_to n xs) \<subseteq> set xs"
  by (auto simp: py_slice_to_def dest: in_set_takeD)

lemma get_related_problems_miss:
  assumes on: "\<not> falsy (ML_OUTPUT_PATH e)"
    and miss: "cache_get (''related_problems:'' @ str_int (pr_id pr) @ '':'' @ str_int (p_id target)) w = None"
    and uc: "user_completed_ids d pr w = (IdSet completed, w1)"
  shows "get_related_problems e d (Some pr) target limit w =
     (case get_each d (related_ids e d pr target limit completed)
             (issue (ModelQuery ''COSINE'') (issue (ModelQuery ''DOT'') w1)) of
        (Inl err, w4) \<Rightarrow> (Inl err, w4)
      | (Inr ps, w4) \<Rightarrow>
          (Inr (Some (ProblemList ps)),
           cache_set (''related_problems:'' @ str_int (pr_id pr) @ '':'' @ str_int (p_id target))
             (ProblemList ps) 21600 w4))"
  using assms
  by (simp add: get_related_problems_def related_ids_def Let_def split: prod.splits sum.splits)

lemma related_ids_props:
  assumes ok: "env_ok e"
  shows "p_id target \<notin> set (related_ids e d pr target limit completed)"
    and "set (related_ids e d pr target limit completed) \<inter> completed = {}"
    and "0 \<le> limit \<Longrightarrow> int (length (related_ids e d pr target limit completed)) \<le> limit"
proof -
  let ?ps = "filter (\<lambda>i. i \<noteq> p_id target)
                         (filter (\<lambda>i. i \<notin> completed)
                            (map p_id (get_visible_problems e d (pr_user pr))))"
  let ?nb = "problem_neighbors e target ?ps DOT limit @ problem_neighbors e target ?ps COSINE limit"
  from ok have "snd ` set (problem_neighbors e target ?ps DOT limit) \<subseteq> set ?ps"
    and "snd ` set (problem_neighbors e target ?ps COSINE limit) \<subseteq> set ?ps"
    unfolding env_ok_def by blast+
  then have nb: "set (map snd ?nb) \<subseteq> set ?ps" by auto
  from ok have "set (shuffle e (today e) (list_of_set e (map snd ?nb))) = set (map snd ?nb)"
    unfolding env_ok_def by simp
  with nb set_py_slice_to [of limit "shuffle e (today e) (list_of_set e (map snd ?nb))"]
  have sub: "set (related_ids e d pr target limit completed) \<subseteq> set ?ps"
    unfolding related_ids_def Let_def by blast
  from sub show "p_id target \<notin> set (related_ids e d pr target limit completed)" by auto
  from sub show "set (related_ids e d pr target limit completed) \<inter> completed = {}" by auto
  show "0 \<le> limit \<Longrightarrow> int (length (related_ids e d pr target limit completed)) \<le> limit"
    unfolding related_ids_def Let_def by (rule length_py_slice_to)
qed

text \<open>
  Claim C6, as amended. Let the outside collaborators keep their contracts (\<open>env_ok\<close>)
  and let the cache hold no entry for the pair of profile and target. Then the list
  \<open>get_related_problems\<close> returns contains neither the target problem nor a problem of
  the set \<open>user_completed_ids\<close> returns in the same state, and for a non-negative
  \<open>limit\<close> its length is at most \<open>limit\<close>.
\<close>

theorem get_related_problems_excludes:
  assumes ok: "env_ok e"
    and miss: "cache_get (''related_problems:'' @ str_int (pr_id pr) @ '':'' @ str_int (p_id target)) w = None"
    and res: "fst (get_related_problems e d (Some pr) target limit w) = Inr (Some (ProblemList ps))"
  shows "p_id target \<notin> p_id ` set ps \<and>
         (\<exists>completed. fst (user_completed_ids d pr w) = IdSet completed \<and>
                      p_id ` set ps \<inter> completed = {}) \<and>
         (0 \<le> limit \<longrightarrow> int (length ps) \<le> limit)"
proof -
  from res have on: "\<not> falsy (ML_OUTPUT_PATH e)"
    by (auto simp: get_related_problems_def)
  obtain c w1 where uc: "user_completed_ids d pr w = (c, w1)"
    by (cases "user_completed_ids d pr w")
  from res on miss uc obtain completed where c: "c = IdSet completed"
    by (cases c) (auto simp: get_related_problems_def)
  note step = get_related_problems_miss [OF on miss uc [unfolded c], of limit]
  from res step obtain w4 where
    "get_each d (related_ids e d pr target limit completed)
             (issue (ModelQuery ''COSINE'') (issue (ModelQuery ''DOT'') w1)) = (Inr ps, w4)"
    by (auto split: prod.splits sum.splits)
  then have ids: "map p_id ps = related_ids e d pr target limit completed"
    by (rule get_each_ids)
  then have s: "p_id ` set ps = set (related_ids e d pr target limit completed)"
    by (metis set_map)
  from ids have l: "length ps = length (related_ids e d pr target limit completed)"
    by (metis length_map)
  from related_ids_props [OF ok, where target = target and d = d and pr = pr and limit = limit
      and completed = completed] s l uc c
  show ?thesis by auto
qed

lemma env_ok_env_on: "env_ok env_on"
  by (auto simp: env_ok_def env_on_def py_slice_to_def split: metric.splits dest: in_set_takeD)

lemma str_int_small: "str_int 1 = ''1''" "str_int 7 = ''7''"
  by (simp_all add: str_int_def str_nat.simps)

lemma user_completed_query_db_related: "user_completed_query db_related alice = {}"
  by (simp add: user_completed_query_def join_problem_def db_related_def)

lemma user_completed_query_db_related_solved: "user_completed_query db_related_solved alice = {2}"
  by (simp add: user_completed_query_def join_problem_def db_related_solved_def alice_def
      mk_problem_def mk_submission_def)

lemma related_fresh:
  "fst (get_related_problems env_on db_related_solved (Some alice) (mk_problem 1 100) 8 empty_world)
     = Inr (Some (ProblemList [mk_problem 3 100]))"
proof -
  have on: "\<not> falsy (ML_OUTPUT_PATH env_on)" by (simp add: falsy_def env_on_def)
  have uc: "user_completed_ids db_related_solved alice empty_world =
      (IdSet {2}, cache_set (''user_complete:'' @ str_int (pr_id alice)) (IdSet {2}) 86400
         (issue (DbQuery ''Submission'') empty_world))"
    by (simp add: user_completed_ids_def cache_get_empty Let_def user_completed_query_db_related_solved)
  have ids: "related_ids env_on db_related_solved alice (mk_problem 1 100) 8 {2} = [3]"
    by (simp add: related_ids_def env_on_def db_related_solved_def mk_problem_def py_slice_to_def)
  show ?thesis
    unfolding get_related_problems_miss [OF on cache_get_empty uc] ids
    by (simp add: objects_get_def db_related_solved_def mk_problem_def Let_def)
qed

text \<open>
  Witness for C6: alice has solved problem 2 and asks for problems related to problem 1;
  of the three visible problems only problem 3 is returned.
\<close>

theorem get_related_problems_excludes_witness:
  "env_ok env_on \<and>
   cache_get (''related_problems:'' @ str_int (pr_id alice) @ '':'' @ str_int (p_id (mk_problem 1 100)))
     empty_world = None \<and>
   fst (get_related_problems env_on db_related_solved (Some alice) (mk_problem 1 100) 8 empty_world)
     = Inr (Some (ProblemList [mk_problem 3 100])) \<and>
   p_id (mk_problem 1 100) \<notin> p_id ` set [mk_problem 3 100] \<and>
   fst (user_completed_ids db_related_solved alice empty_world) = IdSet {2} \<and>
   p_id ` set [mk_problem 3 100] \<inter> {2} = {} \<and>
   int (length [mk_problem 3 100]) \<le> 8"
proof -
  have m: "cache_get (''related_problems:'' @ str_int (pr_id alice) @ '':''
      @ str_int (p_id (mk_problem 1 100))) empty_world = None"
    by (rule cache_get_empty)
  have uc: "fst (user_completed_ids db_related_solved alice empty_world) = IdSet {2}"
    by (simp add: user_completed_ids_def cache_get_empty Let_def user_completed_query_db_related_solved)
  from get_related_problems_excludes [OF env_ok_env_on m related_fresh] uc
  have "p_id (mk_problem 1 100) \<notin> p_id ` set [mk_problem 3 100]"
    and "p_id ` set [mk_problem 3 100] \<inter> {2} = {}"
    and "int (length [mk_problem 3 100]) \<le> 8"
    by simp_all
  with env_ok_env_on m related_fresh uc show ?thesis by simp
qed

lemma key_parts: "str_int (pr_id alice) = ''7''" "str_int (p_id (mk_problem 1 100)) = ''1''"
  by (simp_all add: alice_def mk_problem_def str_int_small)

lemma first_uc:
  "user_completed_ids db_related alice empty_world =
     (IdSet {}, cache_set ''user_complete:7'' (IdSet {}) 86400 (issue (DbQuery ''Submission'') empty_world))"
  by (simp add: user_completed_ids_def cache_get_empty Let_def user_completed_query_db_related key_parts)

lemma first_call:
  "get_related_problems env_on db_related (Some alice) (mk_problem 1 100) 8
     (snd (user_completed_ids db_related alice empty_world)) =
   (Inr (Some (ProblemList [mk_problem 2 100, mk_problem 3 100])),
    cache_set ''related_problems:7:1'' (ProblemList [mk_problem 2 100, mk_problem 3 100]) 21600
      (issue (DbQuery ''Problem'') (issue (DbQuery ''Problem'')
        (issue (ModelQuery ''COSINE'') (issue (ModelQuery ''DOT'')
          (cache_set ''user_complete:7'' (IdSet {}) 86400
             (issue (DbQuery ''Submission'') empty_world)))))))"
proof -
  let ?w = "cache_set ''user_complete:7'' (IdSet {}) 86400 (issue (DbQuery ''Submission'') empty_world)"
  have on: "\<not> falsy (ML_OUTPUT_PATH env_on)" by (simp add: falsy_def env_on_def)
  have miss: "cache_get (''related_problems:'' @ str_int (pr_id alice) @ '':''
      @ str_int (p_id (mk_problem 1 100))) ?w = None"
    by (simp add: key_parts cache_get_def cache_set_def issue_def empty_world_def)
  have uc: "user_completed_ids db_related alice ?w = (IdSet {}, ?w)"
    by (simp add: user_completed_ids_def key_parts Let_def cache_get_def cache_set_def issue_def
        empty_world_def)
  have ids: "related_ids env_on db_related alice (mk_problem 1 100) 8 {} = [2, 3]"
    by (simp add: related_ids_def env_on_def db_related_def mk_problem_def py_slice_to_def)
  show ?thesis
    unfolding first_uc snd_conv get_related_problems_miss [OF on miss uc] ids
    by (simp add: objects_get_def db_related_def Let_def key_parts)
       (simp add: mk_problem_def)
qed

text \<open>
  Counterexample to C6 as written. The set of completed ids (empty) was cached earlier;
  \<open>get_related_problems\<close> is called with limit 8 and caches problems 2 and 3 for six
  hours. The older entry \<^verbatim>\<open>user_complete:7\<close> then runs out and alice solves problem
  2. Now \<open>user_completed_ids\<close> returns \<open>{2}\<close>, and \<open>get_related_problems\<close>, called with
  limit 1, still returns the cached problems 2 and 3: a completed problem, and two
  problems for a limit of one (the cache key does not hold the limit).
\<close>

theorem get_related_problems_stale_counterexample:
  "fst (user_completed_ids db_related_solved alice
          (expire ''user_complete:7'' world_after_first_call)) = IdSet {2} \<and>
   fst (get_related_problems env_on db_related_solved (Some alice) (mk_problem 1 100) 1
          (expire ''user_complete:7'' world_after_first_call))
     = Inr (Some (ProblemList [mk_problem 2 100, mk_problem 3 100]))"
proof -
  have w: "cache (expire ''user_complete:7'' world_after_first_call) =
     [''related_problems:7:1'' \<mapsto> (ProblemList [mk_problem 2 100, mk_problem 3 100], 21600)]"
    unfolding world_after_first_call_def first_call
    by (auto simp: expire_def cache_set_def issue_def empty_world_def)
  have a: "fst (user_completed_ids db_related_solved alice
          (expire ''user_complete:7'' world_after_first_call)) = IdSet {2}"
    by (simp add: user_completed_ids_def key_parts Let_def cache_get_def w
        user_completed_query_db_related_solved)
  have b: "fst (get_related_problems env_on db_related_solved (Some alice) (mk_problem 1 100) 1
          (expire ''user_complete:7'' world_after_first_call))
     = Inr (Some (ProblemList [mk_problem 2 100, mk_problem 3 100]))"
    by (simp add: get_related_problems_def key_parts cache_get_def w falsy_def env_on_def)
  from a b show ?thesis by simp
qed

text \<open>
  Past the guard and on a cache miss the similarity model is queried, so that a trace
  left unchanged does mean that no query was issued.
\<close>

lemma get_related_problems_miss_queries:
  assumes on: "\<not> falsy (ML_OUTPUT_PATH e)"
    and miss: "cache_get (''related_problems:'' @ str_int (pr_id pr) @ '':'' @ str_int (p_id target)) w = None"
    and uc: "user_completed_ids d pr w = (IdSet completed, w1)"
  shows "ModelQuery ''DOT'' \<in> set (trace (snd (get_related_problems e d (Some pr) target limit w)))"
proof -
  let ?w3 = "issue (ModelQuery ''COSINE'') (issue (ModelQuery ''DOT'') w1)"
  let ?ids = "related_ids e d pr target limit completed"
  have "ModelQuery ''DOT'' \<in> set (trace ?w3)" by (simp add: issue_def)
  with get_each_trace [of ?w3 d ?ids]
  have t: "ModelQuery ''DOT'' \<in> set (trace (snd (get_each d ?ids ?w3)))" by blast
  show ?thesis
    unfolding get_related_problems_miss [OF on miss uc]
    using t by (auto simp: cache_set_def split: prod.splits sum.splits)
qed

end
